theory Spec2Isabelle
  imports Main
begin

section \<open>JavaScript strings\<close>

text \<open>
  A JavaScript string is modelled as a \<^typ>\<open>string\<close>, one \<^typ>\<open>char\<close> per code unit, which
  covers text in the range below 256. The emoji of the fixed log lines and headings lie
  outside that range and are written as the bytes of their UTF-8 encoding; no length of a
  text that holds them is ever computed.
\<close>

text \<open>\<^verbatim>\<open>String.prototype.startsWith\<close> and \<^verbatim>\<open>String.prototype.includes\<close>.\<close>

fun startsWith :: "string \<Rightarrow> string \<Rightarrow> bool" where
  "startsWith s [] = True"
| "startsWith [] (p # ps) = False"
| "startsWith (c # s) (p # ps) = (c = p \<and> startsWith s ps)"

fun includesStr :: "string \<Rightarrow> string \<Rightarrow> bool" where
  "includesStr [] p = (p = [])"
| "includesStr (c # s) p = (startsWith (c # s) p \<or> includesStr s p)"

text \<open>
  The white space that \<^verbatim>\<open>trim\<close> removes, below 256: tab, line feed, vertical tab, form
  feed, carriage return, space and the no-break space.
\<close>

definition isSpace :: "char \<Rightarrow> bool" where
  "isSpace c = (c \<in> set [CHR 0x09, CHR 0x0A, CHR 0x0B, CHR 0x0C, CHR 0x0D, CHR 0x20, CHR 0xA0])"

definition trim :: "string \<Rightarrow> string" where
  "trim s = rev (dropWhile isSpace (rev (dropWhile isSpace s)))"

text \<open>
  \<^verbatim>\<open>content.split('\n')\<close>: the pieces between line feeds; the empty text gives one empty
  piece. \<open>splitAcc\<close> carries the piece being read, reversed.
\<close>

fun splitAcc :: "string \<Rightarrow> string \<Rightarrow> string list" where
  "splitAcc acc [] = [rev acc]"
| "splitAcc acc (c # s) = (if c = CHR 0x0A then rev acc # splitAcc [] s else splitAcc (c # acc) s)"

definition splitLines :: "string \<Rightarrow> string list" where
  "splitLines content = splitAcc [] content"

text \<open>\<^verbatim>\<open>Array.prototype.join('\n')\<close>.\<close>

fun joinLines :: "string list \<Rightarrow> string" where
  "joinLines [] = []"
| "joinLines [l] = l"
| "joinLines (l # m # ls) = l @ CHR 0x0A # joinLines (m # ls)"

text \<open>A number inside a template literal: its decimal digits.\<close>

definition digit :: "nat \<Rightarrow> char" where
  "digit d = ''0123456789'' ! d"

fun showNat :: "nat \<Rightarrow> string" where
  "showNat n = (if n < 10 then [digit n] else showNat (n div 10) @ [digit (n mod 10)])"

declare showNat.simps [simp del]

section \<open>The test runner (\<^verbatim>\<open>scripts/test-runner.js\<close>)\<close>

datatype level = Info | Success | Warning | Error

datatype status = Unknown | Passed | Failed

text \<open>
  What awaiting a check's function does: the promise resolves, or it rejects with an error
  whose message is given. A check of the list has its \<^verbatim>\<open>name\<close>, its \<^verbatim>\<open>fn\<close> and its
  \<^verbatim>\<open>critical\<close> flag (\<open>test_name\<close>, \<open>test_critical\<close>: the result below has fields of the
  same names); \<open>elapsed\<close> is the time the call took, read from the clock.
\<close>

datatype outcome = Resolves | Rejects string

record test =
  test_name :: string
  fn :: outcome
  test_critical :: bool
  elapsed :: nat

text \<open>The \<^verbatim>\<open>result\<close> object of \<^verbatim>\<open>runTest\<close>.\<close>

record check_result =
  name :: string
  status :: status
  duration :: nat
  error :: "string option"
  critical :: bool

text \<open>\<^verbatim>\<open>this.results\<close> and the lines written by \<^verbatim>\<open>this.log\<close> (without their time stamps).\<close>

record test_runner =
  passed :: nat
  failed :: nat
  skipped :: nat
  tests :: "check_result list"
  logFile :: "(level \<times> string) list"

definition newTestRunner :: test_runner where
  "newTestRunner = \<lparr>passed = 0, failed = 0, skipped = 0, tests = [], logFile = []\<rparr>"

definition tlog :: "string \<Rightarrow> level \<Rightarrow> test_runner \<Rightarrow> test_runner" where
  "tlog message lvl r = r\<lparr>logFile := logFile r @ [(lvl, message)]\<rparr>"

definition emojiTestTube :: string where
  "emojiTestTube = [CHR 0xF0, CHR 0x9F, CHR 0xA7, CHR 0xAA]"

definition emojiCheckMark :: string where
  "emojiCheckMark = [CHR 0xE2, CHR 0x9C, CHR 0x85]"

definition emojiCrossMark :: string where
  "emojiCrossMark = [CHR 0xE2, CHR 0x9D, CHR 0x8C]"

text \<open>
  \<^verbatim>\<open>runTest\<close>: \<open>Inl\<close> is the error thrown for a failed critical check. The throw comes
  before \<^verbatim>\<open>this.results.tests.push(result)\<close>, after the \<^verbatim>\<open>failed\<close> counter was raised.
\<close>

definition runTest :: "test \<Rightarrow> test_runner \<Rightarrow> (string + check_result) \<times> test_runner" where
  "runTest t r =
     (let r0 = tlog (emojiTestTube @ '' Running '' @ test_name t @ ''...'') Info r;
          result = \<lparr>name = test_name t, status = Unknown, duration = 0, error = None,
                    critical = test_critical t\<rparr>
      in case fn t of
           Resolves \<Rightarrow>
             (let result1 = result\<lparr>status := Passed, duration := elapsed t\<rparr>;
                  r1 = r0\<lparr>passed := passed r0 + 1\<rparr>;
                  r2 = tlog (emojiCheckMark @ '' '' @ test_name t @ '' passed (''
                             @ showNat (duration result1) @ ''ms)'') Success r1
              in (Inr result1, r2\<lparr>tests := tests r2 @ [result1]\<rparr>))
         | Rejects message \<Rightarrow>
             (let result1 = result\<lparr>status := Failed, duration := elapsed t, error := Some message\<rparr>;
                  r1 = r0\<lparr>failed := failed r0 + 1\<rparr>;
                  r2 = tlog (emojiCrossMark @ '' '' @ test_name t @ '' failed: '' @ message) Error r1
              in if test_critical t
                 then (Inl (''Critical test failed: '' @ test_name t), r2)
                 else (Inr result1, r2\<lparr>tests := tests r2 @ [result1]\<rparr>)))"

text \<open>The loop of \<^verbatim>\<open>runAllTests\<close>: a thrown error is logged and breaks the loop.\<close>

fun runLoop :: "test list \<Rightarrow> test_runner \<Rightarrow> test_runner" where
  "runLoop [] r = r"
| "runLoop (t # ts) r =
     (case runTest t r of
        (Inl message, r') \<Rightarrow>
          tlog (''Critical test failure, stopping test suite: '' @ message) Error r'
      | (Inr result, r') \<Rightarrow> runLoop ts r')"

text \<open>
  The report artifact of \<^verbatim>\<open>generateReport\<close>, without the time stamp and the pass rate
  (a formatted floating-point number), and the value it returns. The summary lines it logs
  are display only and are left out.
\<close>

record report =
  total :: nat
  summary_passed :: nat
  summary_failed :: nat
  summary_skipped :: nat
  report_tests :: "check_result list"

definition generateReport :: "test_runner \<Rightarrow> report \<times> bool" where
  "generateReport r =
     (\<lparr>total = passed r + failed r + skipped r, summary_passed = passed r,
       summary_failed = failed r, summary_skipped = skipped r, report_tests = tests r\<rparr>,
      failed r = 0)"

text \<open>
  The eight checks of \<^verbatim>\<open>runAllTests\<close>, in their order; what each function does when it is
  awaited, and how long it takes, is the environment's.
\<close>

definition suite :: "(string \<Rightarrow> outcome \<times> nat) \<Rightarrow> test list" where
  "suite env =
     map (\<lambda>(n, c). \<lparr>test_name = n, fn = fst (env n), test_critical = c, elapsed = snd (env n)\<rparr>)
       [(''Build Test'', True), (''TypeScript Check'', True), (''Linting'', False),
        (''Dependency Security'', False), (''Code Quality'', False),
        (''Performance'', False), (''Security Scan'', False), (''Accessibility'', False)]"

text \<open>
  \<^verbatim>\<open>runAllTests\<close> up to the call of \<^verbatim>\<open>generateReport\<close>, for any list of checks
  (\<open>runChecks\<close>) and for the list in the source (\<open>runAllTests\<close>).
\<close>

definition emojiRocket :: string where
  "emojiRocket = [CHR 0xF0, CHR 0x9F, CHR 0x9A, CHR 0x80]"

definition doubleBar :: string where
  "doubleBar = [CHR 0xE2, CHR 0x95, CHR 0x90]"

definition runChecks :: "test list \<Rightarrow> test_runner" where
  "runChecks ts =
     (let r0 = tlog (emojiRocket @ '' Starting comprehensive test suite...'') Info newTestRunner;
          r1 = tlog (concat (replicate 60 doubleBar)) Info r0
      in runLoop ts r1)"

definition runAllTests :: "(string \<Rightarrow> outcome \<times> nat) \<Rightarrow> test_runner" where
  "runAllTests env = runChecks (suite env)"

text \<open>The exit code of the command line: \<^verbatim>\<open>runner.results.failed === 0 ? 0 : 1\<close>.\<close>

definition exitCode :: "test_runner \<Rightarrow> nat" where
  "exitCode r = (if failed r = 0 then 0 else 1)"

text \<open>How many checks were started: the \<^verbatim>\<open>Running\<close> lines of the log.\<close>

definition startedCount :: "test_runner \<Rightarrow> nat" where
  "startedCount r =
     length (filter (\<lambda>(l, m). startsWith m (emojiTestTube @ '' Running '')) (logFile r))"

section \<open>Commands, the working tree and errors\<close>

text \<open>The command lines given to \<^verbatim>\<open>execSync\<close> by the monitor and by the analyzer.\<close>

datatype cmd =
    GitFetchPull nat
  | GitCheckout string
  | GitCheckoutNew string
  | NpmInstall
  | NpmRunLint
  | NpmRunBuild
  | TscNoEmit
  | NodeRefactorAnalyzer nat
  | EslintFix
  | PrettierWrite
  | GitDiffExitCode
  | GitAddAll
  | GitCommit nat
  | GitPush string

fun cmdText :: "cmd \<Rightarrow> string" where
  "cmdText (GitFetchPull n) = ''git fetch origin pull/'' @ showNat n @ ''/head:pr-'' @ showNat n"
| "cmdText (GitCheckout b) = ''git checkout '' @ b"
| "cmdText (GitCheckoutNew b) = ''git checkout -b '' @ b"
| "cmdText NpmInstall = ''npm install''"
| "cmdText NpmRunLint = ''npm run lint''"
| "cmdText NpmRunBuild = ''npm run build''"
| "cmdText TscNoEmit = ''npx tsc --noEmit''"
| "cmdText (NodeRefactorAnalyzer n) = ''node refactor-analyzer.js '' @ showNat n"
| "cmdText EslintFix = ''npx eslint src/ --fix''"
| "cmdText PrettierWrite = ''npx prettier --write \"src/**/*.{ts,tsx,js,jsx}\"''"
| "cmdText GitDiffExitCode = ''git diff --exit-code''"
| "cmdText GitAddAll = ''git add .''"
| "cmdText (GitCommit n) =
     ''git commit -m \"refactor: automated code improvements based on PR #'' @ showNat n @ ''\"''"
| "cmdText (GitPush b) = ''git push origin '' @ b"

text \<open>
  A \<^verbatim>\<open>Date\<close> value: the time in milliseconds, or the invalid date that an unreadable
  text parses to. A time stamp text (\<^verbatim>\<open>created_at\<close>, the content of the checkpoint file) is
  represented by the value \<^verbatim>\<open>new Date\<close> gives for it. \<^verbatim>\<open>a > b\<close> compares the two
  numbers and is false when either is \<^verbatim>\<open>NaN\<close>.
\<close>

datatype jsdate = InvalidDate | Date int

fun dateGreater :: "jsdate \<Rightarrow> jsdate \<Rightarrow> bool" where
  "dateGreater (Date a) (Date b) = (a > b)"
| "dateGreater _ _ = False"

record pull_request =
  number :: nat
  title :: string
  head_ref :: string
  created_at :: jsdate

record changed_file =
  filename :: string
  additions :: nat
  deletions :: nat

text \<open>
  What the process can observe and change: the active branch of the working tree, the
  commands run so far (failed ones included), the lines of the log, the checkpoint file
  (\<open>None\<close> when it does not exist), the comments posted and the pull requests opened.
\<close>

record world =
  branch :: string
  trace :: "cmd list"
  logs :: "string list"
  lastCheckedFile :: "jsdate option"
  comments :: "(nat \<times> string) list"
  opened :: "(string \<times> string \<times> string \<times> string) list"

text \<open>
  The environment of one run. \<open>shell h c\<close> tells whether command \<open>c\<close>, run after the
  commands \<open>h\<close>, exits with status 0. A remote call gives its data (for
  \<^verbatim>\<open>pulls.create\<close> the address of the new pull request) or the message of the error it
  throws; the file operations throw or not; the clock is read when the checkpoint
  is defaulted and when it is written.
\<close>

record env =
  shell :: "cmd list \<Rightarrow> cmd \<Rightarrow> bool"
  pulls_list :: "string + pull_request list"
  pulls_listFiles :: "nat \<Rightarrow> string + changed_file list"
  issues_createComment :: "nat \<Rightarrow> string option"
  pulls_create :: "string + string"
  readFileSync :: "string option"
  writeFileSync :: "string option"
  now_read :: int
  now_write :: int

text \<open>
  A computation that may throw: it returns the error message (\<open>Inl\<close>) or a value, and the
  world as it is then.
\<close>

type_synonym 'a io = "world \<Rightarrow> (string + 'a) \<times> world"

definition returnIO :: "'a \<Rightarrow> 'a io" where
  "returnIO x w = (Inr x, w)"

definition throwIO :: "string \<Rightarrow> 'a io" where
  "throwIO e w = (Inl e, w)"

definition bindIO :: "'a io \<Rightarrow> ('a \<Rightarrow> 'b io) \<Rightarrow> 'b io" where
  "bindIO m f w = (case m w of (Inl e, w') \<Rightarrow> (Inl e, w') | (Inr x, w') \<Rightarrow> f x w')"

definition thenIO :: "'a io \<Rightarrow> 'b io \<Rightarrow> 'b io" where
  "thenIO m k = bindIO m (\<lambda>_. k)"

fun seqIO :: "unit io list \<Rightarrow> unit io" where
  "seqIO [] = returnIO ()"
| "seqIO (m # ms) = thenIO m (seqIO ms)"

fun forEachIO :: "'a list \<Rightarrow> ('a \<Rightarrow> unit io) \<Rightarrow> unit io" where
  "forEachIO [] f = returnIO ()"
| "forEachIO (x # xs) f = thenIO (f x) (forEachIO xs f)"

text \<open>\<^verbatim>\<open>try { m } catch (error) { h }\<close> and \<^verbatim>\<open>try { m } finally { fin }\<close>.\<close>

definition tryCatch :: "'a io \<Rightarrow> (string \<Rightarrow> 'a io) \<Rightarrow> 'a io" where
  "tryCatch m h w = (case m w of (Inl e, w') \<Rightarrow> h e w' | (Inr x, w') \<Rightarrow> (Inr x, w'))"

definition tryFinally :: "'a io \<Rightarrow> unit io \<Rightarrow> 'a io" where
  "tryFinally m fin w =
     (case m w of (r, w') \<Rightarrow>
        (case fin w' of (Inl e, w'') \<Rightarrow> (Inl e, w'') | (Inr u, w'') \<Rightarrow> (r, w'')))"

definition logIO :: "string \<Rightarrow> unit io" where
  "logIO message w = (Inr (), w\<lparr>logs := logs w @ [message]\<rparr>)"

text \<open>
  \<^verbatim>\<open>execSync\<close>: the command joins the trace; a command that exits with another status than 0
  throws and changes nothing else; a successful checkout makes its branch the active one.
  No other command of the list switches branches; the analyzer launched by the monitor is a
  process of its own, whose commands are not followed here.
\<close>

fun effect :: "cmd \<Rightarrow> world \<Rightarrow> world" where
  "effect (GitCheckout b) w = w\<lparr>branch := b\<rparr>"
| "effect (GitCheckoutNew b) w = w\<lparr>branch := b\<rparr>"
| "effect c w = w"

definition execSync :: "env \<Rightarrow> cmd \<Rightarrow> unit io" where
  "execSync e c w =
     (let w' = w\<lparr>trace := trace w @ [c]\<rparr>
      in if shell e (trace w) c then (Inr (), effect c w')
         else (Inl (''Command failed: '' @ cmdText c), w'))"

section \<open>The monitor (\<^verbatim>\<open>scripts/pr-monitor.js\<close>)\<close>

definition dayMs :: int where
  "dayMs = 24 * 60 * 60 * 1000"

definition getLastCheckedTime :: "env \<Rightarrow> jsdate io" where
  "getLastCheckedTime e w =
     (case lastCheckedFile w of
        Some content \<Rightarrow>
          (case readFileSync e of
             None \<Rightarrow> (Inr content, w)
           | Some message \<Rightarrow>
               thenIO (logIO (''Error reading last checked time: '' @ message))
                 (returnIO (Date (now_read e - dayMs))) w)
      | None \<Rightarrow> (Inr (Date (now_read e - dayMs)), w))"

definition updateLastCheckedTime :: "env \<Rightarrow> unit io" where
  "updateLastCheckedTime e w =
     (case writeFileSync e of
        None \<Rightarrow> (Inr (), w\<lparr>lastCheckedFile := Some (Date (now_write e))\<rparr>)
      | Some message \<Rightarrow> (Inl message, w))"

definition getNewPullRequests :: "env \<Rightarrow> pull_request list io" where
  "getNewPullRequests e =
     tryCatch
       (bindIO (getLastCheckedTime e) (\<lambda>lastChecked.
          case pulls_list e of
            Inl message \<Rightarrow> throwIO message
          | Inr pullRequests \<Rightarrow>
              returnIO (filter (\<lambda>pr. dateGreater (created_at pr) lastChecked) pullRequests)))
       (\<lambda>message. thenIO (logIO (''Error fetching pull requests: '' @ message)) (returnIO []))"

text \<open>
  The analysis of a unit's file list, without the count of file types by extension, which
  nothing reads.
\<close>

record analysis =
  totalFiles :: nat
  total_additions :: nat
  total_deletions :: nat
  criticalFiles :: "string list"
  testFiles :: "string list"

definition analyze :: "changed_file list \<Rightarrow> analysis" where
  "analyze files =
     \<lparr>totalFiles = length files,
      total_additions = foldl (\<lambda>sum file. sum + additions file) 0 files,
      total_deletions = foldl (\<lambda>sum file. sum + deletions file) 0 files,
      criticalFiles =
        filter (\<lambda>f. includesStr f ''package.json'' \<or> includesStr f ''tsconfig''
                     \<or> includesStr f ''vite.config'' \<or> includesStr f ''supabase/migrations'')
          (map filename files),
      testFiles =
        filter (\<lambda>f. includesStr f ''.test.'' \<or> includesStr f ''.spec.''
                     \<or> includesStr f ''__tests__'')
          (map filename files)\<rparr>"

definition analyzePRChanges :: "env \<Rightarrow> nat \<Rightarrow> analysis option io" where
  "analyzePRChanges e prNumber =
     (case pulls_listFiles e prNumber of
        Inr files \<Rightarrow> returnIO (Some (analyze files))
      | Inl message \<Rightarrow>
          thenIO (logIO (''Error analyzing PR changes: '' @ message)) (returnIO None))"

record test_results =
  success :: bool
  errors :: "string list"

definition runTests :: "env \<Rightarrow> nat \<Rightarrow> string \<Rightarrow> test_results io" where
  "runTests e prNumber branchName =
     thenIO (logIO (''Running tests for PR #'' @ showNat prNumber @ '' on branch '' @ branchName))
       (tryFinally
          (tryCatch
             (thenIO
                (seqIO
                   [execSync e (GitFetchPull prNumber),
                    execSync e (GitCheckout (''pr-'' @ showNat prNumber)),
                    logIO ''Installing dependencies...'',
                    execSync e NpmInstall,
                    logIO ''Running ESLint...'',
                    tryCatch (execSync e NpmRunLint)
                      (\<lambda>error. logIO ''Linting failed, but continuing with tests...''),
                    logIO ''Testing build...'',
                    execSync e NpmRunBuild,
                    logIO ''Running TypeScript type check...'',
                    execSync e TscNoEmit,
                    logIO ''All tests passed successfully!''])
                (returnIO \<lparr>success = True, errors = []\<rparr>))
             (\<lambda>error.
                thenIO (logIO (''Tests failed: '' @ error))
                  (returnIO \<lparr>success = False, errors = [error]\<rparr>)))
          (tryCatch (execSync e (GitCheckout ''main''))
             (\<lambda>error. logIO (''Error returning to main branch: '' @ error))))"

definition triggerRefactoring :: "env \<Rightarrow> pull_request \<Rightarrow> unit io" where
  "triggerRefactoring e pr =
     thenIO (logIO (''Triggering refactoring analysis for PR #'' @ showNat (number pr)))
       (tryCatch (execSync e (NodeRefactorAnalyzer (number pr)))
          (\<lambda>error. logIO (''Refactoring analysis failed: '' @ error)))"

text \<open>\<^verbatim>\<open>octokit.issues.createComment\<close>: the comment is posted, or the call throws.\<close>

definition createComment :: "env \<Rightarrow> nat \<Rightarrow> string \<Rightarrow> unit io" where
  "createComment e issue_number body w =
     (case issues_createComment e issue_number of
        None \<Rightarrow> (Inr (), w\<lparr>comments := comments w @ [(issue_number, body)]\<rparr>)
      | Some message \<Rightarrow> (Inl message, w))"

text \<open>\<^verbatim>\<open>${analysis?.totalFiles || 'N/A'}\<close>: a missing analysis and the number 0 both give N/A.\<close>

definition orNA :: "analysis option \<Rightarrow> (analysis \<Rightarrow> nat) \<Rightarrow> string" where
  "orNA a field =
     (case a of None \<Rightarrow> ''N/A'' | Some x \<Rightarrow> if field x = 0 then ''N/A'' else showNat (field x))"

definition passedBody :: "analysis option \<Rightarrow> string" where
  "passedBody a =
     emojiCheckMark @ '' **Automated Testing Complete**'' @ [CHR 0x0A, CHR 0x0A]
     @ ''All tests passed successfully!'' @ [CHR 0x0A, CHR 0x0A]
     @ ''**Analysis:**'' @ [CHR 0x0A]
     @ ''- Files changed: '' @ orNA a totalFiles @ [CHR 0x0A]
     @ ''- Lines added: '' @ orNA a total_additions @ [CHR 0x0A]
     @ ''- Lines deleted: '' @ orNA a total_deletions @ [CHR 0x0A, CHR 0x0A]
     @ ''Build, linting, and type checking all completed successfully.''"

definition failedBody :: "string list \<Rightarrow> string" where
  "failedBody errs =
     emojiCrossMark @ '' **Automated Testing Failed**'' @ [CHR 0x0A, CHR 0x0A]
     @ ''The following issues were found:'' @ [CHR 0x0A, CHR 0x0A]
     @ joinLines (map (\<lambda>error. ''- '' @ error) errs)
     @ [CHR 0x0A, CHR 0x0A] @ ''Please fix these issues before merging.''"

definition processPullRequest :: "env \<Rightarrow> pull_request \<Rightarrow> unit io" where
  "processPullRequest e pr =
     thenIO (logIO (''Processing PR #'' @ showNat (number pr) @ '': '' @ title pr))
       (bindIO (analyzePRChanges e (number pr)) (\<lambda>analysis.
          thenIO
            (case analysis of
               None \<Rightarrow> returnIO ()
             | Some a \<Rightarrow>
                 thenIO
                   (logIO (''PR Analysis: '' @ showNat (totalFiles a) @ '' files, +''
                           @ showNat (total_additions a) @ ''/-'' @ showNat (total_deletions a)
                           @ '' lines''))
                   (if length (criticalFiles a) > 0
                    then logIO (''Critical files modified: ''
                                @ concat (map (\<lambda>f. f @ '', '') (butlast (criticalFiles a)))
                                @ last (criticalFiles a))
                    else returnIO ()))
            (bindIO (runTests e (number pr) (head_ref pr)) (\<lambda>testResults.
               if success testResults
               then
                 seqIO
                   [logIO (''Tests passed for PR #'' @ showNat (number pr)),
                    createComment e (number pr) (passedBody analysis),
                    (case analysis of
                       None \<Rightarrow> returnIO ()
                     | Some a \<Rightarrow>
                         if totalFiles a > 5 \<or> total_additions a > 100
                         then triggerRefactoring e pr
                         else returnIO ())]
               else
                 seqIO
                   [logIO (''Tests failed for PR #'' @ showNat (number pr)),
                    createComment e (number pr) (failedBody (errors testResults))]))))"

text \<open>One cycle: \<^verbatim>\<open>start\<close>.\<close>

definition start :: "env \<Rightarrow> unit io" where
  "start e =
     thenIO (logIO ''Starting PR monitor...'')
       (bindIO (getNewPullRequests e) (\<lambda>newPRs.
          seqIO
            [if length newPRs = 0
             then logIO ''No new pull requests found.''
             else thenIO (logIO (''Found '' @ showNat (length newPRs) @ '' new pull request(s)''))
                    (forEachIO newPRs (processPullRequest e)),
             updateLastCheckedTime e,
             logIO ''PR monitor cycle complete.'']))"

text \<open>
  The units a cycle detects; \<^verbatim>\<open>getNewPullRequests\<close> never throws, see \<open>getNew_eq\<close> below.
\<close>

definition detected :: "env \<Rightarrow> world \<Rightarrow> pull_request list" where
  "detected e w = (case fst (getNewPullRequests e w) of Inr units \<Rightarrow> units | Inl msg \<Rightarrow> [])"


text \<open>
  The part of \<^verbatim>\<open>processPullRequest\<close> that follows the test run, as a function of the analysis
  and of the test results (\<open>process_decompose\<close> below).
\<close>

definition afterTests :: "env \<Rightarrow> pull_request \<Rightarrow> analysis option \<Rightarrow> test_results \<Rightarrow> unit io" where
  "afterTests e pr analysis testResults =
     (if success testResults
      then
        seqIO
          [logIO (''Tests passed for PR #'' @ showNat (number pr)),
           createComment e (number pr) (passedBody analysis),
           (case analysis of
              None \<Rightarrow> returnIO ()
            | Some a \<Rightarrow>
                if totalFiles a > 5 \<or> total_additions a > 100
                then triggerRefactoring e pr
                else returnIO ())]
      else
        seqIO
          [logIO (''Tests failed for PR #'' @ showNat (number pr)),
           createComment e (number pr) (failedBody (errors testResults))])"

text \<open>
  For a unit processed from world \<open>w\<close>: whether its test run succeeds, whether the threshold
  test of \<^verbatim>\<open>processPullRequest\<close> holds of its analysis, and whether the analyzer was
  launched (\<^verbatim>\<open>triggerRefactoring\<close> ran its command) while the unit was processed.
\<close>

definition testsSucceed :: "env \<Rightarrow> pull_request \<Rightarrow> world \<Rightarrow> bool" where
  "testsSucceed e pr w =
     (case fst (runTests e (number pr) (head_ref pr) w) of Inr r \<Rightarrow> success r | Inl msg \<Rightarrow> False)"

definition thresholdHolds :: "env \<Rightarrow> pull_request \<Rightarrow> world \<Rightarrow> bool" where
  "thresholdHolds e pr w =
     (case fst (analyzePRChanges e (number pr) w) of
        Inr (Some a) \<Rightarrow> totalFiles a > 5 \<or> total_additions a > 100
      | Inr None \<Rightarrow> False
      | Inl msg \<Rightarrow> False)"

definition remediationInvoked :: "env \<Rightarrow> pull_request \<Rightarrow> world \<Rightarrow> bool" where
  "remediationInvoked e pr w =
     (NodeRefactorAnalyzer (number pr)
        \<in> set (drop (length (trace w)) (trace (snd (processPullRequest e pr w)))))"

section \<open>The analyzer (\<^verbatim>\<open>scripts/refactor-analyzer.js\<close>)\<close>

datatype suggestion_type = Refactor | Improvement | Cleanup | Consistency

datatype severity = Low | Medium | High

text \<open>
  An entry of \<^verbatim>\<open>this.suggestions\<close>; \<open>kind\<close> is its \<^verbatim>\<open>type\<close> and \<open>file_path\<close> its
  \<^verbatim>\<open>file\<close>.
\<close>

record suggestion =
  kind :: suggestion_type
  file_path :: "string option"
  line :: "nat option"
  message :: string
  severity :: severity
  suggestion :: string

text \<open>
  The source tree: the paths that \<^verbatim>\<open>getSourceFiles\<close> returns, in its order, each with the
  text that \<^verbatim>\<open>readFileSync\<close> reads.
\<close>

type_synonym source_tree = "(string \<times> string) list"

subsection \<open>Long functions\<close>

definition countChar :: "char \<Rightarrow> string \<Rightarrow> nat" where
  "countChar c s = length (filter (\<lambda>x. x = c) s)"

text \<open>In the source's condition \<^verbatim>\<open>&&\<close> binds tighter than \<^verbatim>\<open>||\<close>.\<close>

definition isFunctionStart :: "string \<Rightarrow> bool" where
  "isFunctionStart l =
     (includesStr l ''function ''
      \<or> (includesStr l ''const '' \<and> includesStr l '' = '' \<and> includesStr l ''=>''))"

text \<open>
  The variables of the loop over a file's lines. \<open>currentFunction\<close> holds a trimmed line
  that contains a keyword, so it is never the empty text and counts as true when set.
\<close>

record scan =
  currentFunction :: "string option"
  functionStart :: nat
  braceCount :: int
  found :: "suggestion list"

definition longFunction :: "string \<Rightarrow> nat \<Rightarrow> nat \<Rightarrow> suggestion" where
  "longFunction f fstart functionLength =
     \<lparr>kind = Refactor, file_path = Some f, line = Some (fstart + 1),
      message = ''Function is '' @ showNat functionLength
                @ '' lines long. Consider breaking it into smaller functions.'',
      severity = Medium,
      suggestion = ''Break this function into smaller, more focused functions.''\<rparr>"

definition longStep :: "string \<Rightarrow> scan \<Rightarrow> nat \<times> string \<Rightarrow> scan" where
  "longStep f st il =
     (let i = fst il;
          l = trim (snd il);
          st1 = (if isFunctionStart l \<and> braceCount st = 0
                 then st\<lparr>currentFunction := Some l, functionStart := i\<rparr> else st);
          st2 = st1\<lparr>braceCount := braceCount st1 + int (countChar CHR ''{'' l)
                                     - int (countChar CHR ''}'' l)\<rparr>
      in if currentFunction st2 \<noteq> None \<and> braceCount st2 = 0 \<and> i > functionStart st2
         then (let functionLength = i - functionStart st2;
                   st3 = (if functionLength > 50
                          then st2\<lparr>found := found st2
                                     @ [longFunction f (functionStart st2) functionLength]\<rparr>
                          else st2)
               in st3\<lparr>currentFunction := None\<rparr>)
         else st2)"

text \<open>What a line adds to \<^verbatim>\<open>braceCount\<close>.\<close>

definition braceBalance :: "string \<Rightarrow> int" where
  "braceBalance l = int (countChar CHR ''{'' (trim l)) - int (countChar CHR ''}'' (trim l))"

definition longFunctionsIn :: "string \<Rightarrow> string \<Rightarrow> suggestion list" where
  "longFunctionsIn f content =
     found (foldl (longStep f)
              \<lparr>currentFunction = None, functionStart = 0, braceCount = 0, found = []\<rparr>
              (enumerate 0 (splitLines content)))"

definition checkForLongFunctions :: "source_tree \<Rightarrow> suggestion list \<Rightarrow> suggestion list" where
  "checkForLongFunctions srcFiles suggestions =
     foldl (\<lambda>acc (f, content). acc @ longFunctionsIn f content) suggestions srcFiles"

subsection \<open>Duplicate blocks\<close>

definition duplicateBlock :: "string \<Rightarrow> nat \<Rightarrow> string \<times> nat \<Rightarrow> suggestion" where
  "duplicateBlock f n existing =
     \<lparr>kind = Refactor, file_path = Some f, line = Some n,
      message = ''Duplicate code block found (also in '' @ fst existing @ '':''
                @ showNat (snd existing) @ '')'',
      severity = Medium,
      suggestion = ''Extract this code into a reusable function or component.''\<rparr>"

text \<open>
  The body of the inner loop for the window that starts at index \<open>i\<close>: \<open>codeBlocks\<close> maps
  a block to the place where it was first seen.
\<close>

definition blockAt :: "string list \<Rightarrow> nat \<Rightarrow> string" where
  "blockAt ls i = trim (joinLines (take 5 (drop i ls)))"

definition dupStep ::
  "string \<Rightarrow> string list \<Rightarrow> (string \<rightharpoonup> string \<times> nat) \<times> suggestion list \<Rightarrow> nat
   \<Rightarrow> (string \<rightharpoonup> string \<times> nat) \<times> suggestion list" where
  "dupStep f ls st i =
     (let codeBlocks = fst st; block = blockAt ls i
      in if length block > 50
         then (case codeBlocks block of
                 Some existing \<Rightarrow> (codeBlocks, snd st @ [duplicateBlock f (i + 1) existing])
               | None \<Rightarrow> (codeBlocks(block \<mapsto> (f, i + 1)), snd st))
         else st)"

definition dupFile ::
  "(string \<rightharpoonup> string \<times> nat) \<times> suggestion list \<Rightarrow> string \<times> string
   \<Rightarrow> (string \<rightharpoonup> string \<times> nat) \<times> suggestion list" where
  "dupFile st fc =
     (let ls = splitLines (snd fc) in foldl (dupStep (fst fc) ls) st [0 ..< length ls - 4])"

definition checkForDuplicateCode :: "source_tree \<Rightarrow> suggestion list \<Rightarrow> suggestion list" where
  "checkForDuplicateCode srcFiles suggestions = snd (foldl dupFile (Map.empty, suggestions) srcFiles)"

text \<open>
  The windows of the tree in the order of the scan, each with its file, the line number of
  its first line and its block; the body of the inner loop as a function of the window
  (\<open>dupStep_winStep\<close> below); and the suggestions the scan gives for a list of windows,
  starting from the empty map.
\<close>

type_synonym window = "string \<times> nat \<times> string"

definition windowsOf :: "source_tree \<Rightarrow> window list" where
  "windowsOf srcFiles =
     concat (map (\<lambda>(f, content).
                    map (\<lambda>i. (f, i + 1, blockAt (splitLines content) i))
                      [0 ..< length (splitLines content) - 4])
               srcFiles)"

definition winStep ::
  "(string \<rightharpoonup> string \<times> nat) \<times> suggestion list \<Rightarrow> window
   \<Rightarrow> (string \<rightharpoonup> string \<times> nat) \<times> suggestion list" where
  "winStep st win =
     (let f = fst win; n = fst (snd win); block = snd (snd win)
      in if length block > 50
         then (case fst st block of
                 Some existing \<Rightarrow> (fst st, snd st @ [duplicateBlock f n existing])
               | None \<Rightarrow> ((fst st)(block \<mapsto> (f, n)), snd st))
         else st)"

definition scanWindows :: "window list \<Rightarrow> suggestion list" where
  "scanWindows ws = snd (foldl winStep (Map.empty, []) ws)"

text \<open>
  The places where a tree holds a block of lines as written: the file and the 1-based line
  of every window of the scan (five consecutive lines, the loop's \<^verbatim>\<open>i\<close> up to
  \<^verbatim>\<open>lines.length - 5\<close>) whose lines are the block's.
\<close>

definition occurrences :: "source_tree \<Rightarrow> string list \<Rightarrow> (string \<times> nat) list" where
  "occurrences srcFiles blk =
     concat (map (\<lambda>(f, content).
                    map (\<lambda>i. (f, i + 1))
                      (filter (\<lambda>i. take 5 (drop i (splitLines content)) = blk)
                         [0 ..< length (splitLines content) - 4]))
               srcFiles)"

subsection \<open>The description of the remediation pull request\<close>

definition emojiWrench :: string where
  "emojiWrench = [CHR 0xF0, CHR 0x9F, CHR 0x94, CHR 0xA7]"

definition emojiRed :: string where
  "emojiRed = [CHR 0xF0, CHR 0x9F, CHR 0x94, CHR 0xB4]"

definition emojiYellow :: string where
  "emojiYellow = [CHR 0xF0, CHR 0x9F, CHR 0x9F, CHR 0xA1]"

definition emojiGreen :: string where
  "emojiGreen = [CHR 0xF0, CHR 0x9F, CHR 0x9F, CHR 0xA2]"

definition emojiRobot :: string where
  "emojiRobot = [CHR 0xF0, CHR 0x9F, CHR 0xA4, CHR 0x96]"

definition emojiClipboard :: string where
  "emojiClipboard = [CHR 0xF0, CHR 0x9F, CHR 0x93, CHR 0x8B]"

definition nl :: string where
  "nl = [CHR 0x0A]"

text \<open>\<^verbatim>\<open>${s.file}\<close>: a suggestion without a file renders as \<^verbatim>\<open>undefined\<close>.\<close>

definition fileText :: "suggestion \<Rightarrow> string" where
  "fileText s = (case file_path s of None \<Rightarrow> ''undefined'' | Some f \<Rightarrow> f)"

definition item :: "suggestion \<Rightarrow> string" where
  "item s = ''- **'' @ fileText s @ ''**: '' @ message s @ nl"

text \<open>The heading of a severity's section, with the number of its suggestions.\<close>

fun heading :: "severity \<Rightarrow> nat \<Rightarrow> string" where
  "heading High n = ''### '' @ emojiRed @ '' High Priority Issues ('' @ showNat n @ '')'' @ nl"
| "heading Medium n = ''### '' @ emojiYellow @ '' Medium Priority Issues ('' @ showNat n @ '')'' @ nl"
| "heading Low n = ''### '' @ emojiGreen @ '' Low Priority Issues ('' @ showNat n @ '')'' @ nl"

text \<open>
  One of the three \<^verbatim>\<open>if (xPriority.length > 0) { ... }\<close> blocks: the texts it appends to
  the description, in order.
\<close>

definition section_parts :: "severity \<Rightarrow> suggestion list \<Rightarrow> string list" where
  "section_parts sev suggestions =
     (let priority = filter (\<lambda>s. severity s = sev) suggestions
      in if length priority > 0
         then [heading sev (length priority)] @ map item priority @ [nl]
         else [])"

definition fixedNote :: "string list" where
  "fixedNote =
     [''### '' @ emojiRobot @ '' Automatic Fixes Applied'' @ nl,
      ''- ESLint automatic fixes'' @ nl,
      ''- Prettier code formatting'' @ nl @ nl,
      ''### '' @ emojiClipboard @ '' Manual Review Needed'' @ nl,
      ''Please review the suggestions above and consider implementing the recommended changes.''
        @ nl @ nl,
      ''---'' @ nl @ ''*This PR was automatically generated by the code quality monitoring system.*'']"

text \<open>
  \<^verbatim>\<open>generatePRDescription\<close>: \<open>descriptionParts\<close> lists the operands of the successive
  \<^verbatim>\<open>description += ...\<close>, the description is their concatenation.
\<close>

definition descriptionParts :: "nat \<Rightarrow> suggestion list \<Rightarrow> string list" where
  "descriptionParts prNumber suggestions =
     [''## '' @ emojiWrench @ '' Automated Code Improvements'' @ nl @ nl,
      ''This PR contains automated code improvements based on analysis of PR #''
        @ showNat prNumber @ ''.'' @ nl @ nl]
     @ section_parts High suggestions
     @ section_parts Medium suggestions
     @ section_parts Low suggestions
     @ fixedNote"

definition generatePRDescription :: "nat \<Rightarrow> suggestion list \<Rightarrow> string" where
  "generatePRDescription prNumber suggestions = concat (descriptionParts prNumber suggestions)"

subsection \<open>The remediation workflow\<close>

definition applyAutomaticFixes :: "env \<Rightarrow> unit io" where
  "applyAutomaticFixes e =
     seqIO
       [logIO ''Applying automatic fixes...'',
        tryCatch (thenIO (execSync e EslintFix) (logIO ''Applied ESLint automatic fixes.''))
          (\<lambda>error. logIO ''ESLint fix failed, continuing...''),
        tryCatch (thenIO (execSync e PrettierWrite) (logIO ''Applied Prettier formatting.''))
          (\<lambda>error. logIO ''Prettier formatting failed, continuing...'')]"

text \<open>\<^verbatim>\<open>octokit.pulls.create\<close>: the pull request is opened and its address returned, or the call throws.\<close>

definition createPull :: "env \<Rightarrow> string \<Rightarrow> string \<Rightarrow> string \<Rightarrow> string \<Rightarrow> string io" where
  "createPull e ttl head base body w =
     (case pulls_create e of
        Inr html_url \<Rightarrow> (Inr html_url, w\<lparr>opened := opened w @ [(ttl, head, base, body)]\<rparr>)
      | Inl msg \<Rightarrow> (Inl msg, w))"

text \<open>
  \<^verbatim>\<open>generateRefactoringPR\<close>. The inner \<^verbatim>\<open>try\<close> around \<^verbatim>\<open>git diff --exit-code\<close> gives
  \<open>True\<close> when the command succeeds and the function returns from there (through the
  \<^verbatim>\<open>finally\<close> block), \<open>False\<close> when it throws.
\<close>

definition generateRefactoringPR :: "env \<Rightarrow> nat \<Rightarrow> suggestion list \<Rightarrow> unit io" where
  "generateRefactoringPR e prNumber suggestions =
     (if length suggestions = 0
      then logIO ''No refactoring suggestions found.''
      else
        thenIO
          (logIO (''Generating refactoring PR with '' @ showNat (length suggestions)
                  @ '' suggestions...''))
          (let branchName = ''refactor/automated-improvements-pr-'' @ showNat prNumber
           in tryFinally
                (tryCatch
                   (seqIO
                      [execSync e (GitCheckoutNew branchName),
                       applyAutomaticFixes e,
                       bindIO
                         (tryCatch
                            (thenIO (execSync e GitDiffExitCode)
                               (thenIO (logIO ''No changes to commit after automatic fixes.'')
                                  (returnIO True)))
                            (\<lambda>error. returnIO False))
                         (\<lambda>returned.
                            if returned then returnIO ()
                            else
                              seqIO
                                [execSync e GitAddAll,
                                 execSync e (GitCommit prNumber),
                                 execSync e (GitPush branchName),
                                 bindIO
                                   (createPull e
                                      (emojiWrench @ '' Automated Code Improvements (Based on PR #''
                                       @ showNat prNumber @ '')'')
                                      branchName ''main''
                                      (generatePRDescription prNumber suggestions))
                                   (\<lambda>html_url. logIO (''Created refactoring PR: '' @ html_url))])])
                   (\<lambda>error. logIO (''Error creating refactoring PR: '' @ error)))
                (tryCatch (execSync e (GitCheckout ''main''))
                   (\<lambda>error. logIO (''Error returning to main: '' @ error)))))"

text \<open>
  After a call: the last command run is \<^verbatim>\<open>git checkout main\<close>; and that last command
  succeeded.
\<close>

definition restoreAttempted :: "world \<Rightarrow> bool" where
  "restoreAttempted w = (trace w \<noteq> [] \<and> last (trace w) = GitCheckout ''main'')"

definition restoreSucceeded :: "env \<Rightarrow> world \<Rightarrow> bool" where
  "restoreSucceeded e w = shell e (butlast (trace w)) (GitCheckout ''main'')"

section \<open>Concrete runs\<close>

text \<open>
  Five checks, the second one critical and failing; and the suite of the source in an
  environment where only the advisory check \<^verbatim>\<open>Linting\<close> fails.
\<close>

definition fiveChecks :: "test list" where
  "fiveChecks =
     [\<lparr>test_name = ''one'', fn = Resolves, test_critical = False, elapsed = 3\<rparr>,
      \<lparr>test_name = ''two'', fn = Rejects ''boom'', test_critical = True, elapsed = 4\<rparr>,
      \<lparr>test_name = ''three'', fn = Resolves, test_critical = False, elapsed = 1\<rparr>,
      \<lparr>test_name = ''four'', fn = Resolves, test_critical = False, elapsed = 1\<rparr>,
      \<lparr>test_name = ''five'', fn = Resolves, test_critical = True, elapsed = 1\<rparr>]"

definition lintFails :: "string \<Rightarrow> outcome \<times> nat" where
  "lintFails n =
     (if n = ''Linting'' then (Rejects ''Linting failed: Command failed: npm run lint'', 7)
      else (Resolves, 5))"

text \<open>
  A checkpoint at 2024-01-01T00:00:00Z and open units created one hour before it (11), at
  it (10), one hour after it (12) and shortly before that (13); a change of six files; an
  environment where every command and call succeeds, and variants where posting a comment
  on unit 12 fails, where listing the open units fails, and a later cycle.
\<close>

definition unitA :: pull_request where
  "unitA = \<lparr>number = 11, title = ''Add search'', head_ref = ''feature/search'',
             created_at = Date 1704063600000\<rparr>"

definition unitB :: pull_request where
  "unitB = \<lparr>number = 12, title = ''Fix login'', head_ref = ''fix/login'',
             created_at = Date 1704070800000\<rparr>"

definition unitC :: pull_request where
  "unitC = \<lparr>number = 13, title = ''Update docs'', head_ref = ''docs'',
             created_at = Date 1704070700000\<rparr>"

definition unitT :: pull_request where
  "unitT = \<lparr>number = 10, title = ''Bump version'', head_ref = ''release'',
             created_at = Date 1704067200000\<rparr>"

definition sixFiles :: "changed_file list" where
  "sixFiles =
     map (\<lambda>f. \<lparr>filename = f, additions = 10, deletions = 2\<rparr>)
       [''src/a.ts'', ''src/b.ts'', ''src/c.ts'', ''src/d.ts'', ''src/e.ts'', ''package.json'']"

definition envOK :: env where
  "envOK =
     \<lparr>shell = (\<lambda>h c. True), pulls_list = Inr [unitB, unitC, unitT, unitA],
      pulls_listFiles = (\<lambda>n. Inr sixFiles), issues_createComment = (\<lambda>n. None),
      pulls_create = Inr ''https://github.com/Ch0daboy/Unstack/pull/14'',
      readFileSync = None, writeFileSync = None,
      now_read = 1704074400000, now_write = 1704074460000\<rparr>"

definition world0 :: world where
  "world0 =
     \<lparr>branch = ''main'', trace = [], logs = [], lastCheckedFile = Some (Date 1704067200000),
      comments = [], opened = []\<rparr>"

definition envCommentFails :: env where
  "envCommentFails =
     envOK\<lparr>issues_createComment := (\<lambda>n. if n = 12 then Some ''Bad credentials'' else None)\<rparr>"

definition envFetchFails :: env where
  "envFetchFails = envOK\<lparr>pulls_list := Inl ''Service Unavailable''\<rparr>"

definition envLater :: env where
  "envLater = envOK\<lparr>now_read := 1704074700000, now_write := 1704074760000\<rparr>"




text \<open>
  Environments where the build, the diff check (so there are changes) and the commit fail;
  and where only \<^verbatim>\<open>git checkout main\<close> fails. A suggestion list of one entry.
\<close>

definition envStepsFail :: env where
  "envStepsFail =
     envOK\<lparr>shell := (\<lambda>h c. c \<noteq> NpmRunBuild \<and> c \<noteq> GitDiffExitCode \<and> c \<noteq> GitCommit 12)\<rparr>"

definition envRestoreFails :: env where
  "envRestoreFails = envOK\<lparr>shell := (\<lambda>h c. c \<noteq> GitCheckout ''main'')\<rparr>"

definition oneSuggestion :: "suggestion list" where
  "oneSuggestion = [duplicateBlock ''src/b.ts'' 7 (''src/a.ts'', 3)]"

text \<open>
  A function whose body has \<open>n\<close> lines: \<open>n + 2\<close> lines from its declaration to its closing
  brace. Two files that hold the same five lines, the second after a line of its own. A
  suggestion list with one high and two low entries.
\<close>

definition fnBlock :: "nat \<Rightarrow> string" where
  "fnBlock n = joinLines (''function handle(req) {'' # replicate n ''  step(req);'' @ [''}''])"

definition blockLines :: "string list" where
  "blockLines =
     [''  const total = items.reduce(sum, 0);'',
      ''  const tax = total * rate;'',
      ''  const shipping = region.fee;'',
      ''  log(total, tax, shipping);'',
      ''  return total + tax + shipping;'']"

definition headerLine :: string where
  "headerLine = ''export function price(items, rate, region) {''"

definition dupTree :: source_tree where
  "dupTree = [(''src/cart.ts'', joinLines blockLines),
              (''src/order.ts'', joinLines (headerLine # blockLines))]"

definition dupBlock :: string where
  "dupBlock = trim (joinLines blockLines)"

definition otherBlock :: string where
  "otherBlock = trim (joinLines (headerLine # butlast blockLines))"

text \<open>
  Two files that hold the same five lines, the first of them empty, at line 1: in the first
  file an empty line follows the block, so that the window at its line 2 has the same
  trimmed text.
\<close>

definition paddedBlock :: "string list" where
  "paddedBlock =
     ['''',
      ''const total = items.reduce(sum, 0);'',
      ''const tax = total * rate;'',
      ''log(total, tax);'',
      ''return total + tax;'']"

definition twoTree :: source_tree where
  "twoTree = [(''src/solo.ts'', joinLines (paddedBlock @ [''''])),
              (''src/other.ts'', joinLines paddedBlock)]"

definition exampleSuggestions :: "suggestion list" where
  "exampleSuggestions =
     [\<lparr>kind = Refactor, file_path = Some ''src/components/Board.tsx'', line = None,
       message = ''Component is 412 lines long. Consider breaking into smaller components.'',
       severity = High,
       suggestion = ''Split this component into smaller, more focused components.''\<rparr>,
      \<lparr>kind = Improvement, file_path = Some ''src/api.ts'', line = None,
       message = ''Found function parameters without explicit types.'',
       severity = Low,
       suggestion = ''Add explicit types to function parameters.''\<rparr>,
      \<lparr>kind = Consistency, file_path = None, line = None,
       message = ''Mixed quote styles found. Consider using single quotes consistently.'',
       severity = Low,
       suggestion = ''Use single quotes throughout the codebase.''\<rparr>]"

section \<open>Properties of the test runner\<close>

lemma banner_not_running [simp]:
  "\<not> startsWith (concat (replicate 60 doubleBar)) (CHR 0xF0 # p)"
proof -
  have "replicate 60 doubleBar = doubleBar # replicate 59 doubleBar"
    by (simp add: numeral_eq_Suc)
  then show ?thesis
    by (simp add: doubleBar_def)
qed

lemmas runner_defs =
  runChecks_def runAllTests_def suite_def runTest_def tlog_def newTestRunner_def Let_def
  startedCount_def exitCode_def generateReport_def emojiCrossMark_def emojiCheckMark_def
  emojiRocket_def emojiTestTube_def

lemma started_tlog:
  "startedCount (tlog msg lvl r) =
     startedCount r + (if startsWith msg (emojiTestTube @ '' Running '') then 1 else 0)"
  by (simp add: startedCount_def tlog_def)

lemma startsWith_append [simp]: "startsWith (p @ s) p"
  by (induction p) auto

lemma runTest_log:
  "\<exists>lvl m. logFile (snd (runTest t r))
             = logFile r @ [(Info, emojiTestTube @ '' Running '' @ test_name t @ ''...''), (lvl, m)]
           \<and> \<not> startsWith m (emojiTestTube @ '' Running '')"
proof -
  have b: "\<not> startsWith (emojiCheckMark @ x) (emojiTestTube @ '' Running '')"
    "\<not> startsWith (emojiCrossMark @ x) (emojiTestTube @ '' Running '')" for x
    by (simp_all add: emojiCheckMark_def emojiCrossMark_def emojiTestTube_def)
  show ?thesis
    by (cases "fn t") (simp_all add: runTest_def Let_def tlog_def b)
qed

lemma runTest_effect:
  "startedCount (snd (runTest t r)) = startedCount r + 1
   \<and> failed (snd (runTest t r)) = failed r + (if fn t = Resolves then 0 else 1)
   \<and> tests (snd (runTest t r)) =
       tests r @ (case fn t of
                    Resolves \<Rightarrow> [\<lparr>name = test_name t, status = Passed, duration = elapsed t,
                                  error = None, critical = test_critical t\<rparr>]
                  | Rejects msg \<Rightarrow>
                      if test_critical t then []
                      else [\<lparr>name = test_name t, status = Failed, duration = elapsed t,
                             error = Some msg, critical = test_critical t\<rparr>])
   \<and> (\<exists>x. fst (runTest t r) = (if test_critical t \<and> fn t \<noteq> Resolves
                                 then Inl (''Critical test failed: '' @ test_name t) else Inr x))"
proof -
  have a: "startsWith (emojiTestTube @ '' Running '' @ n @ ''...'') (emojiTestTube @ '' Running '')" for n
    using startsWith_append [of "emojiTestTube @ '' Running ''" "n @ ''...''"] by simp
  have s: "startedCount (snd (runTest t r)) = startedCount r + 1"
    using runTest_log [of t r] a [of "test_name t"] by (auto simp: startedCount_def)
  have rest: "failed (snd (runTest t r)) = failed r + (if fn t = Resolves then 0 else 1)
   \<and> tests (snd (runTest t r)) =
       tests r @ (case fn t of
                    Resolves \<Rightarrow> [\<lparr>name = test_name t, status = Passed, duration = elapsed t,
                                  error = None, critical = test_critical t\<rparr>]
                  | Rejects msg \<Rightarrow>
                      if test_critical t then []
                      else [\<lparr>name = test_name t, status = Failed, duration = elapsed t,
                             error = Some msg, critical = test_critical t\<rparr>])
   \<and> (\<exists>x. fst (runTest t r) = (if test_critical t \<and> fn t \<noteq> Resolves
                                 then Inl (''Critical test failed: '' @ test_name t) else Inr x))"
    by (cases "fn t") (simp_all add: runTest_def Let_def tlog_def)
  show ?thesis using s rest by simp
qed

text \<open>
  In every run, the first critical check that fails ends the loop: the checks after it
  are not started, the run fails, and the recorded list holds the checks before it only.
\<close>

lemma critical_failure_stops_run:
  assumes "\<forall>u\<in>set pre. \<not> (test_critical u \<and> fn u \<noteq> Resolves)"
    and "test_critical t" and "fn t = Rejects msg"
  shows "startedCount (runLoop (pre @ t # post) r) = startedCount r + length pre + 1
         \<and> length (tests (runLoop (pre @ t # post) r)) = length (tests r) + length pre
         \<and> failed (runLoop (pre @ t # post) r) > 0"
  using assms(1)
proof (induction pre arbitrary: r)
  case Nil
  obtain x r' where rt: "runTest t r = (x, r')" by (cases "runTest t r")
  have "x = Inl (''Critical test failed: '' @ test_name t)"
    using runTest_effect [of t r] rt assms(2,3) by auto
  then show ?case
    using runTest_effect [of t r] rt assms(2,3)
    by (simp add: started_tlog emojiTestTube_def, simp add: tlog_def)
next
  case (Cons u pre)
  obtain x r' where rt: "runTest u r = (x, r')" by (cases "runTest u r")
  have "\<exists>y. x = Inr y"
    using runTest_effect [of u r] rt Cons.prems by auto
  then obtain y where x: "x = Inr y" by blast
  have "length (tests r') = length (tests r) + 1"
    using runTest_effect [of u r] rt Cons.prems by (cases "fn u") auto
  moreover have "startedCount r' = startedCount r + 1"
    using runTest_effect [of u r] rt by simp
  ultimately show ?case
    using Cons.IH [of r'] Cons.prems rt x by simp
qed

lemma failed_mono: "failed r \<le> failed (runLoop ts r)"
proof (induction ts arbitrary: r)
  case Nil
  then show ?case by simp
next
  case (Cons u ts)
  obtain x r' where rt: "runTest u r = (x, r')" by (cases "runTest u r")
  have "failed r \<le> failed r'"
    using runTest_effect [of u r] rt by simp
  then show ?case
    using Cons.IH [of r'] rt by (cases x) (auto simp: tlog_def intro: order_trans)
qed

text \<open>
  In every run whose critical checks all pass, one failing advisory check makes the run
  fail.
\<close>

lemma advisory_failure_fails_any_run:
  assumes "t \<in> set ts" and "fn t = Rejects msg"
    and "\<forall>u\<in>set ts. test_critical u \<longrightarrow> fn u = Resolves"
  shows "exitCode (runLoop ts r) = 1 \<and> \<not> snd (generateReport (runLoop ts r))"
  using assms
proof (induction ts arbitrary: r)
  case Nil
  then show ?case by simp
next
  case (Cons u ts)
  obtain x r' where rt: "runTest u r = (x, r')" by (cases "runTest u r")
  have "\<exists>y. x = Inr y"
    using runTest_effect [of u r] rt Cons.prems(3) by auto
  then obtain y where x: "x = Inr y" by blast
  show ?case
  proof (cases "t = u")
    case True
    then have "failed r' > 0"
      using runTest_effect [of u r] rt Cons.prems(2) by simp
    then have "failed (runLoop ts r') > 0"
      using failed_mono [of r' ts] by simp
    then show ?thesis using rt x by (simp add: exitCode_def generateReport_def)
  next
    case False
    then show ?thesis using Cons rt x by simp
  qed
qed

text \<open>
  C2. A failed critical check stops the run and the run fails, but the check is not recorded:
  of five checks whose second is critical and fails, two are started, the \<^verbatim>\<open>failed\<close>
  counter and the report's total count both of them, and the recorded list holds one entry,
  that of the first check.
\<close>

theorem critical_failure_not_recorded:
  "startedCount (runChecks fiveChecks) = 2
   \<and> exitCode (runChecks fiveChecks) = 1
   \<and> failed (runChecks fiveChecks) = 1
   \<and> total (fst (generateReport (runChecks fiveChecks))) = 2
   \<and> length (tests (runChecks fiveChecks)) = 1
   \<and> map name (tests (runChecks fiveChecks)) = [''one'']"
  by (simp add: runner_defs fiveChecks_def)

text \<open>
  C3. With both critical checks passing and the advisory check \<^verbatim>\<open>Linting\<close> failing, all
  eight checks run and the failure is recorded, but the run is reported as failed:
  \<^verbatim>\<open>generateReport\<close> returns false and the exit code is 1.
\<close>

theorem advisory_failure_fails_run:
  "startedCount (runAllTests lintFails) = 8
   \<and> map name (filter (\<lambda>t. status t = Failed) (tests (runAllTests lintFails))) = [''Linting'']
   \<and> map name (filter critical (tests (runAllTests lintFails)))
       = [''Build Test'', ''TypeScript Check'']
   \<and> list_all (\<lambda>t. status t = Passed) (filter critical (tests (runAllTests lintFails)))
   \<and> snd (generateReport (runAllTests lintFails)) = False
   \<and> exitCode (runAllTests lintFails) = 1"
  by (simp add: runner_defs lintFails_def)

section \<open>Properties of the monitor\<close>

lemmas io_defs =
  returnIO_def throwIO_def bindIO_def thenIO_def tryCatch_def tryFinally_def logIO_def

lemmas monitor_defs =
  start_def processPullRequest_def runTests_def analyzePRChanges_def triggerRefactoring_def
  createComment_def execSync_def getNewPullRequests_def getLastCheckedTime_def
  updateLastCheckedTime_def analyze_def Let_def

lemmas concrete_defs =
  envOK_def envCommentFails_def envFetchFails_def envLater_def world0_def unitA_def unitB_def
  unitC_def unitT_def sixFiles_def showNat.simps digit_def

subsection \<open>Detection\<close>

lemma getNew_eq:
  "getNewPullRequests e w =
     (case getLastCheckedTime e w of
        (Inr lastChecked, w') \<Rightarrow>
          (case pulls_list e of
             Inr prs \<Rightarrow> (Inr (filter (\<lambda>pr. dateGreater (created_at pr) lastChecked) prs), w')
           | Inl msg \<Rightarrow>
               (Inr [], w'\<lparr>logs := logs w' @ [''Error fetching pull requests: '' @ msg]\<rparr>))
      | (Inl msg, w') \<Rightarrow>
          (Inr [], w'\<lparr>logs := logs w' @ [''Error fetching pull requests: '' @ msg]\<rparr>))"
  by (simp add: getNewPullRequests_def io_defs split: prod.splits sum.splits)


text \<open>
  C5. With the checkpoint at \<open>T\<close> (read from the file, or defaulted) and the open units
  listed by the remote call, the detector returns without error and returns a unit created
  at \<open>t\<close> exactly when the unit is listed and \<open>t > T\<close>; so a unit created at \<open>T\<close> itself is
  not returned. The result is a plain list, possibly empty.
\<close>

theorem detector_strictly_newer:
  assumes "fst (getLastCheckedTime e w) = Inr (Date T)"
    and "pulls_list e = Inr prs"
    and "created_at pr = Date t"
  shows "fst (getNewPullRequests e w) = Inr (detected e w)
         \<and> (pr \<in> set (detected e w) \<longleftrightarrow> pr \<in> set prs \<and> t > T)"
  using assms by (auto simp: detected_def getNew_eq split: prod.splits sum.splits)

theorem detector_strictly_newer_witness:
  "fst (getLastCheckedTime envOK world0) = Inr (Date 1704067200000)
   \<and> pulls_list envOK = Inr [unitB, unitC, unitT, unitA]
   \<and> created_at unitA = Date 1704063600000
   \<and> created_at unitT = Date 1704067200000
   \<and> created_at unitB = Date 1704070800000
   \<and> unitB \<in> set (detected envOK world0)
   \<and> unitT \<notin> set (detected envOK world0)
   \<and> unitA \<notin> set (detected envOK world0)"
proof -
  have h: "fst (getLastCheckedTime envOK world0) = Inr (Date 1704067200000)"
    by (simp add: getLastCheckedTime_def envOK_def world0_def)
  have l: "pulls_list envOK = Inr [unitB, unitC, unitT, unitA]"
    by (simp add: envOK_def)
  have a: "created_at unitA = Date 1704063600000" and b: "created_at unitB = Date 1704070800000"
    and t: "created_at unitT = Date 1704067200000"
    by (simp_all add: unitA_def unitB_def unitT_def)
  show ?thesis
    using detector_strictly_newer [OF h l a] detector_strictly_newer [OF h l b]
      detector_strictly_newer [OF h l t] h l a b t
    by simp
qed

subsection \<open>The checkpoint is written by \<^verbatim>\<open>updateLastCheckedTime\<close> only\<close>
























subsection \<open>Processing a unit\<close>

lemma runTests_shape:
  "\<exists>r w' cs. runTests e n b w = (Inr r, w') \<and> trace w' = trace w @ cs
      \<and> NodeRefactorAnalyzer k \<notin> set cs"
  by (simp add: runTests_def io_defs execSync_def Let_def)

lemma runTests_trace_only:
  "trace w1 = trace w \<Longrightarrow> fst (runTests e n b w1) = fst (runTests e n b w)"
  by (simp add: runTests_def io_defs execSync_def Let_def)

lemma analyze_shape:
  "\<exists>a w'. analyzePRChanges e n w = (Inr a, w') \<and> trace w' = trace w
      \<and> fst (analyzePRChanges e n v) = Inr a"
  by (cases "pulls_listFiles e n") (auto simp: analyzePRChanges_def io_defs)

lemma trigger_trace:
  "fst (triggerRefactoring e pr w) = Inr ()
   \<and> trace (snd (triggerRefactoring e pr w)) = trace w @ [NodeRefactorAnalyzer (number pr)]"
  by (auto simp: triggerRefactoring_def io_defs execSync_def Let_def)

lemma process_decompose:
  "\<exists>a r w2 cs. fst (analyzePRChanges e (number pr) w) = Inr a
      \<and> fst (runTests e (number pr) (head_ref pr) w) = Inr r
      \<and> trace w2 = trace w @ cs \<and> NodeRefactorAnalyzer (number pr) \<notin> set cs
      \<and> processPullRequest e pr w = afterTests e pr a r w2"
proof -
  let ?n = "number pr"
  define blk :: "analysis option \<Rightarrow> unit io" where "blk = (\<lambda>analysis.
            case analysis of
               None \<Rightarrow> returnIO ()
             | Some a \<Rightarrow>
                 thenIO
                   (logIO (''PR Analysis: '' @ showNat (totalFiles a) @ '' files, +''
                           @ showNat (total_additions a) @ ''/-'' @ showNat (total_deletions a)
                           @ '' lines''))
                   (if length (criticalFiles a) > 0
                    then logIO (''Critical files modified: ''
                                @ concat (map (\<lambda>f. f @ '', '') (butlast (criticalFiles a)))
                                @ last (criticalFiles a))
                    else returnIO ()))"
  have pdef: "processPullRequest e pr =
     thenIO (logIO (''Processing PR #'' @ showNat ?n @ '': '' @ title pr))
       (bindIO (analyzePRChanges e ?n) (\<lambda>analysis.
          thenIO (blk analysis) (bindIO (runTests e ?n (head_ref pr)) (afterTests e pr analysis))))"
    unfolding processPullRequest_def blk_def afterTests_def by (rule refl)
  obtain w0 where l0: "logIO (''Processing PR #'' @ showNat ?n @ '': '' @ title pr) w = (Inr (), w0)"
    and w0: "trace w0 = trace w"
    by (simp add: logIO_def)
  obtain a w0' where an: "analyzePRChanges e ?n w0 = (Inr a, w0')" and w0': "trace w0' = trace w0"
    and an': "fst (analyzePRChanges e ?n w) = Inr a"
    using analyze_shape [of e ?n w0 w] by blast
  have "\<exists>w1. blk a w0' = (Inr (), w1) \<and> trace w1 = trace w0'"
    by (cases a) (auto simp: blk_def io_defs)
  then obtain w1 where b1: "blk a w0' = (Inr (), w1)" and w1: "trace w1 = trace w0'"
    by blast
  obtain r w2 cs where rt: "runTests e ?n (head_ref pr) w1 = (Inr r, w2)"
    and tr: "trace w2 = trace w @ cs" and nr: "NodeRefactorAnalyzer ?n \<notin> set cs"
    using runTests_shape [of e ?n "head_ref pr" w1 ?n] w1 w0' w0 by auto
  have ts: "fst (runTests e ?n (head_ref pr) w) = Inr r"
    using rt runTests_trace_only [of w1 w e ?n "head_ref pr"] w1 w0' w0 by simp
  have pp: "processPullRequest e pr w = afterTests e pr a r w2"
    using l0 an b1 rt by (simp add: pdef thenIO_def bindIO_def)
  show ?thesis using an' ts tr nr pp by blast
qed

lemma afterTests_effect:
  "fst (afterTests e pr a r w)
     = (case issues_createComment e (number pr) of None \<Rightarrow> Inr () | Some msg \<Rightarrow> Inl msg)
   \<and> trace (snd (afterTests e pr a r w))
     = (if success r \<and> issues_createComment e (number pr) = None
           \<and> (case a of None \<Rightarrow> False | Some x \<Rightarrow> totalFiles x > 5 \<or> total_additions x > 100)
        then trace w @ [NodeRefactorAnalyzer (number pr)] else trace w)"
proof -
  let ?wc = "w\<lparr>logs := logs w @ [''Tests passed for PR #'' @ showNat (number pr)],
                comments := comments w @ [(number pr, passedBody a)]\<rparr>"
  show ?thesis
    using trigger_trace [of e pr ?wc]
    by (cases "triggerRefactoring e pr ?wc")
       (auto simp: afterTests_def io_defs createComment_def split: option.splits)
qed

text \<open>
  Processing a unit throws exactly when posting its comment throws: the failures of the
  analysis, of the test run and of the analyzer's launch are caught inside.
\<close>

lemma process_throws_iff_comment_fails:
  "fst (processPullRequest e pr w)
     = (case issues_createComment e (number pr) of None \<Rightarrow> Inr () | Some msg \<Rightarrow> Inl msg)"
  using process_decompose [of e pr w] afterTests_effect [of e pr] by auto

text \<open>
  The analyzer is launched for a unit exactly when the unit's test run succeeds, the comment
  reporting the success is posted without an error, and the analysis is available with more
  than 5 changed files or more than 100 added lines.
\<close>

lemma remediation_launch_condition:
  "remediationInvoked e pr w \<longleftrightarrow>
     testsSucceed e pr w \<and> issues_createComment e (number pr) = None \<and> thresholdHolds e pr w"
proof -
  obtain a r w2 cs where an: "fst (analyzePRChanges e (number pr) w) = Inr a"
    and ts: "fst (runTests e (number pr) (head_ref pr) w) = Inr r"
    and tr: "trace w2 = trace w @ cs" and nr: "NodeRefactorAnalyzer (number pr) \<notin> set cs"
    and pp: "processPullRequest e pr w = afterTests e pr a r w2"
    using process_decompose [of e pr w] by blast
  have th: "thresholdHolds e pr w
      = (case a of None \<Rightarrow> False | Some x \<Rightarrow> totalFiles x > 5 \<or> total_additions x > 100)"
    using an by (simp add: thresholdHolds_def split: option.splits)
  show ?thesis
    using afterTests_effect [of e pr a r w2] tr nr
    by (simp add: remediationInvoked_def testsSucceed_def pp ts th)
qed

text \<open>
  C6. The tests of unit 12 succeed and its six changed files pass the threshold. When every
  call succeeds the analyzer is launched for it. When posting the comment that reports the
  success throws, the error leaves \<^verbatim>\<open>processPullRequest\<close> before the threshold is
  tested: the analyzer is not launched, although the tests passed and the threshold holds.
\<close>

theorem comment_failure_skips_remediation:
  "testsSucceed envOK unitB world0
   \<and> thresholdHolds envOK unitB world0
   \<and> remediationInvoked envOK unitB world0
   \<and> testsSucceed envCommentFails unitB world0
   \<and> thresholdHolds envCommentFails unitB world0
   \<and> fst (processPullRequest envCommentFails unitB world0) = Inl ''Bad credentials''
   \<and> NodeRefactorAnalyzer 12
        \<notin> set (trace (snd (processPullRequest envCommentFails unitB world0)))
   \<and> \<not> remediationInvoked envCommentFails unitB world0"
  by (simp add: testsSucceed_def thresholdHolds_def remediationInvoked_def monitor_defs io_defs
      concrete_defs)

text \<open>
  C4. Units 12 and 13 are detected, in this order. Posting the comment on unit 12 throws:
  the error leaves \<^verbatim>\<open>processPullRequest\<close> and \<^verbatim>\<open>start\<close>, unit 13 is never processed (no
  log line, no command, no comment for it) and the checkpoint is not written.
\<close>

theorem comment_failure_aborts_cycle:
  "map number (detected envCommentFails world0) = [12, 13]
   \<and> fst (start envCommentFails world0) = Inl ''Bad credentials''
   \<and> filter (\<lambda>m. startsWith m ''Processing PR #'') (logs (snd (start envCommentFails world0)))
       = [''Processing PR #12: Fix login'']
   \<and> GitFetchPull 13 \<notin> set (trace (snd (start envCommentFails world0)))
   \<and> comments (snd (start envCommentFails world0)) = []
   \<and> lastCheckedFile (snd (start envCommentFails world0)) = lastCheckedFile world0"
  by (simp add: detected_def monitor_defs io_defs concrete_defs)

section \<open>Properties of the branch restoration\<close>

lemma finally_restore:
  fixes m :: "'a io"
  defines "fin \<equiv> \<lambda>e f. tryCatch (execSync e (GitCheckout ''main'')) (\<lambda>error. logIO (f error))"
  shows "fst (tryFinally m (fin e f) w) = fst (m w)
         \<and> restoreAttempted (snd (tryFinally m (fin e f) w))
         \<and> (restoreSucceeded e (snd (tryFinally m (fin e f) w))
              \<longrightarrow> branch (snd (tryFinally m (fin e f) w)) = ''main'')
         \<and> (\<not> restoreSucceeded e (snd (tryFinally m (fin e f) w))
              \<longrightarrow> logs (snd (tryFinally m (fin e f) w))
                    = logs (snd (m w)) @ [f ''Command failed: git checkout main'']
                  \<and> branch (snd (tryFinally m (fin e f) w)) = branch (snd (m w)))"
  unfolding fin_def
  by (cases "m w")
     (auto simp: tryFinally_def tryCatch_def execSync_def logIO_def Let_def restoreAttempted_def
        restoreSucceeded_def split: if_splits)

lemma catch_returns:
  assumes "\<And>err w. \<not> isl (fst (h err w))"
  shows "\<not> isl (fst (tryCatch m h w))"
proof (cases "m w")
  case (Pair r w')
  then show ?thesis using assms by (cases r) (simp_all add: tryCatch_def)
qed

lemma then_log: "thenIO (logIO msg) k w = k (w\<lparr>logs := logs w @ [msg]\<rparr>)"
  by (simp add: thenIO_def bindIO_def logIO_def)

text \<open>
  C1, as amended. Whatever the commands and calls do, \<^verbatim>\<open>runTests\<close> and
  \<^verbatim>\<open>generateRefactoringPR\<close> return without an error. \<^verbatim>\<open>runTests\<close> ends by running
  \<^verbatim>\<open>git checkout main\<close>, and so does \<^verbatim>\<open>generateRefactoringPR\<close> on a list that is not
  empty; when that command succeeds the active branch is \<^verbatim>\<open>main\<close>, and when it fails the
  last line logged is its error, \<^verbatim>\<open>Error returning to main branch: ...\<close> for the first
  function and \<^verbatim>\<open>Error returning to main: ...\<close> for the second. On the empty list
  \<^verbatim>\<open>generateRefactoringPR\<close> runs no command and leaves the branch as it was.
\<close>

theorem baseline_restored_if_checkout_succeeds:
  "\<not> isl (fst (runTests e n b w))
   \<and> restoreAttempted (snd (runTests e n b w))
   \<and> (restoreSucceeded e (snd (runTests e n b w)) \<longrightarrow> branch (snd (runTests e n b w)) = ''main'')
   \<and> (\<not> restoreSucceeded e (snd (runTests e n b w)) \<longrightarrow>
        last (logs (snd (runTests e n b w)))
          = ''Error returning to main branch: Command failed: git checkout main'')
   \<and> fst (generateRefactoringPR e n suggestions w) = Inr ()
   \<and> (suggestions \<noteq> [] \<longrightarrow>
        restoreAttempted (snd (generateRefactoringPR e n suggestions w))
        \<and> (restoreSucceeded e (snd (generateRefactoringPR e n suggestions w))
             \<longrightarrow> branch (snd (generateRefactoringPR e n suggestions w)) = ''main'')
        \<and> (\<not> restoreSucceeded e (snd (generateRefactoringPR e n suggestions w)) \<longrightarrow>
             last (logs (snd (generateRefactoringPR e n suggestions w)))
               = ''Error returning to main: Command failed: git checkout main''))
   \<and> (suggestions = [] \<longrightarrow>
        trace (snd (generateRefactoringPR e n suggestions w)) = trace w
        \<and> branch (snd (generateRefactoringPR e n suggestions w)) = branch w)"
proof -
  let ?f = "\<lambda>error. ''Error returning to main branch: '' @ error"
  let ?g = "\<lambda>error. ''Error returning to main: '' @ error"
  let ?fin = "\<lambda>k. tryCatch (execSync e (GitCheckout ''main'')) (\<lambda>error. logIO (k error))"
  have a: "\<not> isl (fst (runTests e n b w))
   \<and> restoreAttempted (snd (runTests e n b w))
   \<and> (restoreSucceeded e (snd (runTests e n b w)) \<longrightarrow> branch (snd (runTests e n b w)) = ''main'')
   \<and> (\<not> restoreSucceeded e (snd (runTests e n b w)) \<longrightarrow>
        last (logs (snd (runTests e n b w)))
          = ''Error returning to main branch: Command failed: git checkout main'')"
  proof -
    let ?h = "\<lambda>error. thenIO (logIO (''Tests failed: '' @ error))
                  (returnIO \<lparr>success = False, errors = [error]\<rparr>)"
    have "\<exists>body v. runTests e n b w = tryFinally (tryCatch body ?h) (?fin ?f) v"
      unfolding runTests_def then_log by (intro exI) (rule refl)
    then obtain body v where rt: "runTests e n b w = tryFinally (tryCatch body ?h) (?fin ?f) v"
      by blast
    have "\<not> isl (fst (tryCatch body ?h v))"
      by (rule catch_returns) (simp add: thenIO_def bindIO_def logIO_def returnIO_def)
    then show ?thesis
      using finally_restore [where m = "tryCatch body ?h" and f = ?f and e = e and w = v]
      by (simp add: rt)
  qed
  have b: "fst (generateRefactoringPR e n suggestions w) = Inr ()
      \<and> restoreAttempted (snd (generateRefactoringPR e n suggestions w))
        \<and> (restoreSucceeded e (snd (generateRefactoringPR e n suggestions w))
             \<longrightarrow> branch (snd (generateRefactoringPR e n suggestions w)) = ''main'')
        \<and> (\<not> restoreSucceeded e (snd (generateRefactoringPR e n suggestions w)) \<longrightarrow>
             last (logs (snd (generateRefactoringPR e n suggestions w)))
               = ''Error returning to main: Command failed: git checkout main'')"
    if "suggestions \<noteq> []"
  proof -
    have ne: "length suggestions \<noteq> 0" using that by simp
    let ?h = "\<lambda>error. logIO (''Error creating refactoring PR: '' @ error)"
    have "\<exists>body v. generateRefactoringPR e n suggestions w
             = tryFinally (tryCatch body ?h) (?fin ?g) v"
      unfolding generateRefactoringPR_def then_log Let_def if_not_P [OF ne]
      by (intro exI) (rule refl)
    then obtain body v where rt: "generateRefactoringPR e n suggestions w
             = tryFinally (tryCatch body ?h) (?fin ?g) v"
      by blast
    have "\<not> isl (fst (tryCatch body ?h v))"
      by (rule catch_returns) (simp add: logIO_def)
    then have "fst (tryCatch body ?h v) = Inr ()"
      by (cases "fst (tryCatch body ?h v)") simp_all
    then show ?thesis
      using finally_restore [where m = "tryCatch body ?h" and f = ?g and e = e and w = v]
      by (simp add: rt)
  qed
  have c: "fst (generateRefactoringPR e n suggestions w) = Inr ()
        \<and> trace (snd (generateRefactoringPR e n suggestions w)) = trace w
        \<and> branch (snd (generateRefactoringPR e n suggestions w)) = branch w"
    if "suggestions = []"
    using that by (simp add: generateRefactoringPR_def logIO_def)
  show ?thesis using a b c by blast
qed

theorem baseline_restored_if_checkout_succeeds_witness:
  "restoreSucceeded envStepsFail (snd (runTests envStepsFail 12 ''fix/login'' world0))
   \<and> branch (snd (runTests envStepsFail 12 ''fix/login'' world0)) = ''main''
   \<and> oneSuggestion \<noteq> []
   \<and> restoreSucceeded envStepsFail (snd (generateRefactoringPR envStepsFail 12 oneSuggestion world0))
   \<and> branch (snd (generateRefactoringPR envStepsFail 12 oneSuggestion world0)) = ''main''
   \<and> GitCommit 12 \<in> set (trace (snd (generateRefactoringPR envStepsFail 12 oneSuggestion world0)))
   \<and> \<not> restoreSucceeded envRestoreFails (snd (runTests envRestoreFails 12 ''fix/login'' world0))
   \<and> last (logs (snd (runTests envRestoreFails 12 ''fix/login'' world0)))
       = ''Error returning to main branch: Command failed: git checkout main''
   \<and> \<not> restoreSucceeded envRestoreFails
         (snd (generateRefactoringPR envRestoreFails 12 oneSuggestion world0))
   \<and> last (logs (snd (generateRefactoringPR envRestoreFails 12 oneSuggestion world0)))
       = ''Error returning to main: Command failed: git checkout main''"
proof -
  have r: "restoreSucceeded envStepsFail w" for w
    by (simp add: restoreSucceeded_def envStepsFail_def envOK_def)
  have f: "\<not> restoreSucceeded envRestoreFails w" for w
    by (simp add: restoreSucceeded_def envRestoreFails_def envOK_def)
  have s: "oneSuggestion \<noteq> []"
    by (simp add: oneSuggestion_def)
  have c: "GitCommit 12
      \<in> set (trace (snd (generateRefactoringPR envStepsFail 12 oneSuggestion world0)))"
    by (simp add: generateRefactoringPR_def applyAutomaticFixes_def oneSuggestion_def
        execSync_def io_defs Let_def envStepsFail_def envOK_def world0_def)
  show ?thesis
    using baseline_restored_if_checkout_succeeds
      [of envStepsFail 12 "''fix/login''" world0 oneSuggestion]
      baseline_restored_if_checkout_succeeds
      [of envRestoreFails 12 "''fix/login''" world0 oneSuggestion] r f s c
    by simp
qed

text \<open>
  C1, as stated, fails: when \<^verbatim>\<open>git checkout main\<close> itself fails, the error is logged and
  both functions return with the working tree on the branch they switched to.
\<close>

theorem baseline_not_restored_counterexample:
  "branch world0 = ''main''
   \<and> branch (snd (runTests envRestoreFails 12 ''fix/login'' world0)) = ''pr-12''
   \<and> branch (snd (generateRefactoringPR envRestoreFails 12 oneSuggestion world0))
       = ''refactor/automated-improvements-pr-12''"
  by (simp add: runTests_def generateRefactoringPR_def applyAutomaticFixes_def createPull_def
      oneSuggestion_def execSync_def io_defs Let_def envRestoreFails_def envOK_def world0_def
      showNat.simps digit_def)

section \<open>Properties of the analyzer\<close>

subsection \<open>Long functions\<close>

lemma splitAcc_line:
  "CHR 0x0A \<notin> set l \<Longrightarrow> splitAcc acc (l @ CHR 0x0A # rest) = (rev acc @ l) # splitAcc [] rest"
  by (induction l arbitrary: acc) auto

lemma splitAcc_last: "CHR 0x0A \<notin> set l \<Longrightarrow> splitAcc acc l = [rev acc @ l]"
  by (induction l arbitrary: acc) auto

lemma splitLines_joinLines:
  "ls \<noteq> [] \<Longrightarrow> \<forall>l\<in>set ls. CHR 0x0A \<notin> set l \<Longrightarrow> splitLines (joinLines ls) = ls"
proof (induction ls rule: joinLines.induct)
  case 1
  then show ?case by simp
next
  case (2 l)
  then show ?case by (simp add: splitLines_def splitAcc_last)
next
  case (3 l m ls)
  then show ?case by (simp add: splitLines_def splitAcc_line)
qed

lemma foldl_same: "(\<And>x. x \<in> set xs \<Longrightarrow> f s x = s) \<Longrightarrow> foldl f s xs = s"
  by (induction xs) auto

text \<open>
  A block that starts at depth 0 with a declaration line opening one brace, goes on with
  lines that leave the depth unchanged and ends with a line closing the brace, is flagged
  exactly when the closing line is more than 50 lines after the declaration: when the
  block has 52 lines or more.
\<close>

lemma long_function_span:
  assumes "isFunctionStart (trim d)" and "braceBalance d = 1"
    and "\<forall>l\<in>set body. braceBalance l = 0"
    and "braceBalance c = - 1"
  shows "found (foldl (longStep f)
                  \<lparr>currentFunction = None, functionStart = 0, braceCount = 0, found = []\<rparr>
                  (enumerate 0 (d # body @ [c])))
           = (if length body + 1 > 50 then [longFunction f 0 (length body + 1)] else [])"
proof -
  let ?st1 = "\<lparr>currentFunction = Some (trim d), functionStart = 0, braceCount = 1, found = []\<rparr>"
  have d: "longStep f \<lparr>currentFunction = None, functionStart = 0, braceCount = 0, found = []\<rparr> (0, d)
             = ?st1"
    using assms(1,2) by (simp add: longStep_def Let_def braceBalance_def)
  have b: "longStep f ?st1 (i, l) = ?st1" if "l \<in> set body" for i l
    using assms(3) that by (auto simp: longStep_def Let_def braceBalance_def)
  have bs: "foldl (longStep f) ?st1 (enumerate (Suc 0) body) = ?st1"
    by (rule foldl_same) (auto simp: b in_set_enumerate_eq)
  have c: "longStep f ?st1 (Suc (length body), c) =
      ?st1\<lparr>braceCount := 0,
            found := (if length body + 1 > 50 then [longFunction f 0 (length body + 1)] else []),
            currentFunction := None\<rparr>"
    using assms(4) by (simp add: longStep_def Let_def braceBalance_def)
  show ?thesis
    by (simp add: enumerate_append_eq d bs c)
qed

lemma long_function_threshold:
  "length (splitLines (fnBlock n)) = n + 2
   \<and> longFunctionsIn f (fnBlock n) = (if n + 1 > 50 then [longFunction f 0 (n + 1)] else [])"
proof -
  let ?decl = "''function handle(req) {''" and ?body = "''  step(req);''"
  have sp: "splitLines (fnBlock n) = ?decl # replicate n ?body @ [''}'']"
    unfolding fnBlock_def by (rule splitLines_joinLines) auto
  have "isFunctionStart (trim ?decl)" and "braceBalance ?decl = 1"
    and "\<forall>l\<in>set (replicate n ?body). braceBalance l = 0" and "braceBalance ''}'' = - 1"
    by (simp_all add: braceBalance_def trim_def isSpace_def isFunctionStart_def countChar_def)
  from long_function_span [OF this, of f] show ?thesis
    by (simp add: longFunctionsIn_def sp)
qed

text \<open>
  C8. A function of 51 lines, from its declaration to the line of its closing brace, is not
  flagged: the scanner measures the distance between the two lines, 50, and flags above 50.
  The first function flagged has 52 lines, and its message gives its length as 51.
\<close>

theorem fifty_one_not_flagged:
  "length (splitLines (fnBlock 49)) = 51 \<and> longFunctionsIn ''src/api.ts'' (fnBlock 49) = []
   \<and> length (splitLines (fnBlock 48)) = 50 \<and> longFunctionsIn ''src/api.ts'' (fnBlock 48) = []
   \<and> length (splitLines (fnBlock 50)) = 52
   \<and> longFunctionsIn ''src/api.ts'' (fnBlock 50) = [longFunction ''src/api.ts'' 0 51]
   \<and> message (longFunction ''src/api.ts'' 0 51)
       = ''Function is 51 lines long. Consider breaking it into smaller functions.''
   \<and> checkForLongFunctions [(''src/api.ts'', fnBlock 49)] [] = []"
  using long_function_threshold [of 49 "''src/api.ts''"]
    long_function_threshold [of 48 "''src/api.ts''"]
    long_function_threshold [of 50 "''src/api.ts''"]
  by (simp add: longFunction_def showNat.simps digit_def checkForLongFunctions_def)

subsection \<open>Duplicate blocks\<close>

lemma dupStep_winStep: "dupStep f ls = (\<lambda>st i. winStep st (f, i + 1, blockAt ls i))"
  by (intro ext) (auto simp: dupStep_def winStep_def Let_def split: option.splits)

lemma dupFile_windows:
  "dupFile st (f, content) =
     foldl winStep st (map (\<lambda>i. (f, i + 1, blockAt (splitLines content) i))
                         [0 ..< length (splitLines content) - 4])"
  by (simp add: dupFile_def Let_def foldl_map dupStep_winStep)

lemma files_windows: "foldl dupFile st srcFiles = foldl winStep st (windowsOf srcFiles)"
proof (induction srcFiles arbitrary: st)
  case Nil
  then show ?case by (simp add: windowsOf_def)
next
  case (Cons fc srcFiles)
  obtain f content where fc: "fc = (f, content)" by (cases fc)
  have "windowsOf (fc # srcFiles) =
          map (\<lambda>i. (f, i + 1, blockAt (splitLines content) i))
            [0 ..< length (splitLines content) - 4] @ windowsOf srcFiles"
    by (simp add: windowsOf_def fc)
  then show ?case
    using Cons.IH [of "dupFile st fc"] by (simp add: fc dupFile_windows)
qed

lemma check_scan: "checkForDuplicateCode srcFiles [] = scanWindows (windowsOf srcFiles)"
  by (simp add: checkForDuplicateCode_def scanWindows_def files_windows)

lemma winStep_out:
  "winStep (m, out) win = (fst (winStep (m, []) win), out @ snd (winStep (m, []) win))"
  by (simp add: winStep_def Let_def split: option.splits)

lemma scan_out:
  "foldl winStep (m, out) ws
     = (fst (foldl winStep (m, []) ws), out @ snd (foldl winStep (m, []) ws))"
proof (induction ws arbitrary: m out)
  case Nil
  then show ?case by simp
next
  case (Cons win ws)
  let ?m = "fst (winStep (m, []) win)" and ?s = "snd (winStep (m, []) win)"
  have "foldl winStep (m, out) (win # ws) = foldl winStep (?m, out @ ?s) ws"
    using winStep_out [of m out win] by simp
  also have "\<dots> = (fst (foldl winStep (?m, []) ws), (out @ ?s) @ snd (foldl winStep (?m, []) ws))"
    by (rule Cons.IH)
  finally have l: "foldl winStep (m, out) (win # ws)
      = (fst (foldl winStep (?m, []) ws), out @ ?s @ snd (foldl winStep (?m, []) ws))"
    by simp
  have "foldl winStep (m, []) (win # ws) = foldl winStep (?m, ?s) ws"
    by simp
  also have "\<dots> = (fst (foldl winStep (?m, []) ws), ?s @ snd (foldl winStep (?m, []) ws))"
    by (rule Cons.IH)
  finally show ?case using l by simp
qed

lemma scan_other_key:
  assumes "b \<notin> (\<lambda>win. snd (snd win)) ` set ws"
  shows "foldl winStep (m(b \<mapsto> v), out) ws
           = ((fst (foldl winStep (m, out) ws))(b \<mapsto> v), snd (foldl winStep (m, out) ws))"
  using assms
proof (induction ws arbitrary: m out)
  case Nil
  then show ?case by simp
next
  case (Cons win ws)
  then have ne: "snd (snd win) \<noteq> b" and rest: "b \<notin> (\<lambda>win. snd (snd win)) ` set ws"
    by auto
  have step: "winStep (m(b \<mapsto> v), out) win
                = ((fst (winStep (m, out) win))(b \<mapsto> v), snd (winStep (m, out) win))"
    using ne by (auto simp: winStep_def Let_def fun_upd_twist split: option.splits)
  show ?case
    by (simp only: foldl_Cons step Cons.IH [OF rest] prod.collapse)
qed

lemma scan_key_absent:
  assumes "b \<notin> (\<lambda>win. snd (snd win)) ` set ws"
  shows "fst (foldl winStep (m, out) ws) b = m b"
  using assms
proof (induction ws arbitrary: m out)
  case Nil
  then show ?case by simp
next
  case (Cons win ws)
  then have ne: "snd (snd win) \<noteq> b" and rest: "b \<notin> (\<lambda>win. snd (snd win)) ` set ws"
    by auto
  have "fst (winStep (m, out) win) b = m b"
    using ne by (auto simp: winStep_def Let_def split: option.splits)
  then show ?case
    using Cons.IH [OF rest, of "fst (winStep (m, out) win)" "snd (winStep (m, out) win)"]
    by simp
qed

lemma scan_distinct:
  assumes "distinct (map (\<lambda>win. snd (snd win)) ws)"
    and "\<forall>win\<in>set ws. m (snd (snd win)) = None"
  shows "snd (foldl winStep (m, out) ws) = out"
  using assms
proof (induction ws arbitrary: m out)
  case Nil
  then show ?case by simp
next
  case (Cons win ws)
  have step: "winStep (m, out) win = (fst (winStep (m, out) win), out)"
    using Cons.prems(2) by (simp add: winStep_def Let_def)
  have keep: "\<forall>v\<in>set ws. fst (winStep (m, out) win) (snd (snd v)) = None"
  proof
    fix v assume v: "v \<in> set ws"
    have "snd (snd win) \<notin> set (map (\<lambda>win. snd (snd win)) ws)"
      using Cons.prems(1) by simp
    moreover have "snd (snd v) \<in> set (map (\<lambda>win. snd (snd win)) ws)"
      using v by simp
    ultimately have "snd (snd v) \<noteq> snd (snd win)"
      by (rule_tac notI) simp
    then show "fst (winStep (m, out) win) (snd (snd v)) = None"
      using Cons.prems(2) v by (simp add: winStep_def Let_def)
  qed
  have "snd (foldl winStep (fst (winStep (m, out) win), out) ws) = out"
    using Cons.IH [OF _ keep] Cons.prems(1) by simp
  then show ?case using step by (metis foldl_Cons)
qed

text \<open>
  C7, as amended. The scan compares the windows of the tree by their trimmed text. When a
  text longer than 50 characters is the trimmed text of exactly two windows, at line \<open>n1\<close>
  of \<open>f1\<close> and then at line \<open>n2\<close> of \<open>f2\<close>, the scanner's output is its output for the other
  windows with exactly one more suggestion: of type refactor and medium severity, at file
  \<open>f2\<close> and line \<open>n2\<close>, with the message \<^verbatim>\<open>Duplicate code block found (also in f1:n1)\<close>.
  When the other windows have texts different from one another, this suggestion is the
  whole output.
\<close>

theorem one_suggestion_per_repeat:
  assumes "windowsOf srcFiles = A @ (f1, n1, b) # B @ (f2, n2, b) # C"
    and "length b > 50"
    and "b \<notin> (\<lambda>win. snd (snd win)) ` set (A @ B @ C)"
  shows "\<exists>S1 S2.
           checkForDuplicateCode srcFiles [] =
             S1 @ [\<lparr>kind = Refactor, file_path = Some f2, line = Some n2,
                    message = ''Duplicate code block found (also in '' @ f1 @ '':''
                              @ showNat n1 @ '')'',
                    severity = Medium,
                    suggestion = ''Extract this code into a reusable function or component.''\<rparr>]
             @ S2
           \<and> scanWindows (A @ B @ C) = S1 @ S2
           \<and> (distinct (map (\<lambda>win. snd (snd win)) (A @ B @ C)) \<longrightarrow> S1 = [] \<and> S2 = [])"
proof -
  let ?key = "\<lambda>win :: window. snd (snd win)"
  define d where "d = duplicateBlock f2 n2 (f1, n1)"
  have nA: "b \<notin> ?key ` set A" and nB: "b \<notin> ?key ` set B" and nC: "b \<notin> ?key ` set C"
    using assms(3) by auto
  obtain mA sA where a: "foldl winStep (Map.empty, []) A = (mA, sA)"
    by (cases "foldl winStep (Map.empty, []) A")
  have mAb: "mA b = None"
    using scan_key_absent [OF nA, of Map.empty "[]"] a by simp
  obtain mB sB where bb: "foldl winStep (mA, sA) B = (mB, sB)"
    by (cases "foldl winStep (mA, sA) B")
  let ?sC = "snd (foldl winStep (mB, []) C)"
  have w1: "winStep (mA, sA) (f1, n1, b) = (mA(b \<mapsto> (f1, n1)), sA)"
    using assms(2) mAb by (simp add: winStep_def)
  have afterB: "foldl winStep (mA(b \<mapsto> (f1, n1)), sA) B = (mB(b \<mapsto> (f1, n1)), sB)"
    using scan_other_key [OF nB, of mA "(f1, n1)" sA] bb by simp
  have w2: "winStep (mB(b \<mapsto> (f1, n1)), sB) (f2, n2, b) = (mB(b \<mapsto> (f1, n1)), sB @ [d])"
    using assms(2) by (simp add: winStep_def d_def)
  have afterC: "snd (foldl winStep (mB(b \<mapsto> (f1, n1)), sB @ [d]) C) = sB @ [d] @ ?sC"
    using scan_other_key [OF nC, of mB "(f1, n1)" "sB @ [d]"] scan_out [of mB "sB @ [d]" C]
    by simp
  have full: "checkForDuplicateCode srcFiles [] = sB @ [d] @ ?sC"
    by (simp add: check_scan scanWindows_def assms(1) a w1 afterB w2 afterC)
  have others: "scanWindows (A @ B @ C) = sB @ ?sC"
    using scan_out [of mB sB C] by (simp add: scanWindows_def a bb)
  have alone: "sB = [] \<and> ?sC = []" if "distinct (map ?key (A @ B @ C))"
  proof -
    have "scanWindows (A @ B @ C) = []"
      unfolding scanWindows_def using that by (intro scan_distinct) simp_all
    then show ?thesis using others by simp
  qed
  have "\<exists>S1 S2. checkForDuplicateCode srcFiles [] = S1 @ [d] @ S2
           \<and> scanWindows (A @ B @ C) = S1 @ S2
           \<and> (distinct (map ?key (A @ B @ C)) \<longrightarrow> S1 = [] \<and> S2 = [])"
    using full others alone by blast
  then show ?thesis
    unfolding d_def duplicateBlock_def fst_conv snd_conv .
qed

lemma dupTree_windows:
  "windowsOf dupTree =
     [] @ (''src/cart.ts'', 1, dupBlock) # [(''src/order.ts'', 1, otherBlock)]
     @ (''src/order.ts'', 2, dupBlock) # []"
proof -
  have a: "splitLines (joinLines blockLines) = blockLines"
    by (rule splitLines_joinLines) (simp_all add: blockLines_def)
  have b: "splitLines (joinLines (headerLine # blockLines)) = headerLine # blockLines"
    by (rule splitLines_joinLines) (simp_all add: blockLines_def headerLine_def)
  have l: "length blockLines = 5"
    by (simp add: blockLines_def)
  have u: "[0 ..< Suc 0] = [0]" "[0 ..< 2] = [0, 1]"
    by (simp_all add: upt_rec)
  show ?thesis
    by (simp add: windowsOf_def dupTree_def a b l u blockAt_def dupBlock_def otherBlock_def
        butlast_conv_take)
qed

theorem one_suggestion_per_repeat_witness:
  "windowsOf dupTree =
     [] @ (''src/cart.ts'', 1, dupBlock) # [(''src/order.ts'', 1, otherBlock)]
     @ (''src/order.ts'', 2, dupBlock) # []
   \<and> 50 < length dupBlock
   \<and> dupBlock \<noteq> otherBlock
   \<and> checkForDuplicateCode dupTree [] =
       [\<lparr>kind = Refactor, file_path = Some ''src/order.ts'', line = Some 2,
         message = ''Duplicate code block found (also in src/cart.ts:1)'',
         severity = Medium,
         suggestion = ''Extract this code into a reusable function or component.''\<rparr>]"
proof -
  have len: "50 < length dupBlock"
    by (simp add: dupBlock_def blockLines_def trim_def isSpace_def)
  have ne: "dupBlock \<noteq> otherBlock"
    by (simp add: dupBlock_def otherBlock_def blockLines_def headerLine_def trim_def isSpace_def)
  have one: "distinct (map (\<lambda>win. snd (snd win)) ([] @ [(''src/order.ts'', 1, otherBlock)] @ []))"
    by simp
  have n1: "showNat (Suc 0) = ''1''"
    by (simp add: showNat.simps digit_def)
  have "dupBlock \<notin> (\<lambda>win. snd (snd win)) ` set ([] @ [(''src/order.ts'', 1, otherBlock)] @ [])"
    using ne by simp
  from one_suggestion_per_repeat [OF dupTree_windows len this] one
  have "checkForDuplicateCode dupTree [] =
       [\<lparr>kind = Refactor, file_path = Some ''src/order.ts'', line = Some 2,
         message = ''Duplicate code block found (also in '' @ ''src/cart.ts'' @ '':''
                   @ showNat 1 @ '')'',
         severity = Medium,
         suggestion = ''Extract this code into a reusable function or component.''\<rparr>]"
    by auto
  then show ?thesis using dupTree_windows len ne by (simp add: n1)
qed

lemma twoTree_lines:
  "splitLines (joinLines (paddedBlock @ [''''])) = paddedBlock @ ['''']"
  "splitLines (joinLines paddedBlock) = paddedBlock"
  by (rule splitLines_joinLines; simp add: paddedBlock_def)+

text \<open>
  C7, as stated, fails: the five lines of \<open>paddedBlock\<close>, whose trimmed text has more than 50
  characters, are at exactly two places, line 1 of \<^verbatim>\<open>src/solo.ts\<close> and line 1 of
  \<^verbatim>\<open>src/other.ts\<close>, and the scanner emits two suggestions: the five lines at line 2 of
  \<^verbatim>\<open>src/solo.ts\<close> are other lines with the same trimmed text.
\<close>

theorem two_suggestions_counterexample:
  "length paddedBlock = 5
   \<and> 50 < length (trim (joinLines paddedBlock))
   \<and> occurrences twoTree paddedBlock = [(''src/solo.ts'', 1), (''src/other.ts'', 1)]
   \<and> checkForDuplicateCode twoTree [] =
       [\<lparr>kind = Refactor, file_path = Some ''src/solo.ts'', line = Some 2,
         message = ''Duplicate code block found (also in src/solo.ts:1)'',
         severity = Medium,
         suggestion = ''Extract this code into a reusable function or component.''\<rparr>,
        \<lparr>kind = Refactor, file_path = Some ''src/other.ts'', line = Some 1,
         message = ''Duplicate code block found (also in src/solo.ts:1)'',
         severity = Medium,
         suggestion = ''Extract this code into a reusable function or component.''\<rparr>]"
proof -
  have u: "[0 ..< Suc 0] = [0]" "[0 ..< 2] = [0, 1]"
    by (simp_all add: upt_rec)
  have l: "length paddedBlock = 5"
    by (simp add: paddedBlock_def)
  have t: "50 < length (trim (joinLines paddedBlock))"
    by (simp add: paddedBlock_def trim_def isSpace_def)
  have o: "occurrences twoTree paddedBlock = [(''src/solo.ts'', 1), (''src/other.ts'', 1)]"
    by (simp add: occurrences_def twoTree_def twoTree_lines l u) (simp add: paddedBlock_def)
  have c: "checkForDuplicateCode twoTree [] =
       [\<lparr>kind = Refactor, file_path = Some ''src/solo.ts'', line = Some 2,
         message = ''Duplicate code block found (also in src/solo.ts:1)'',
         severity = Medium,
         suggestion = ''Extract this code into a reusable function or component.''\<rparr>,
        \<lparr>kind = Refactor, file_path = Some ''src/other.ts'', line = Some 1,
         message = ''Duplicate code block found (also in src/solo.ts:1)'',
         severity = Medium,
         suggestion = ''Extract this code into a reusable function or component.''\<rparr>]"
    by (simp add: checkForDuplicateCode_def dupFile_def dupStep_def twoTree_def twoTree_lines l u
        Let_def blockAt_def)
       (simp add: paddedBlock_def trim_def isSpace_def duplicateBlock_def showNat.simps digit_def)
  show ?thesis using l t o c by simp
qed

subsection \<open>The description\<close>

lemmas emoji_defs = emojiWrench_def emojiRed_def emojiYellow_def emojiGreen_def emojiRobot_def
  emojiClipboard_def nl_def

lemma item_fun:
  "item = (\<lambda>s. ''- **'' @ (case file_path s of None \<Rightarrow> ''undefined'' | Some f \<Rightarrow> f) @ ''**: ''
                 @ message s @ [CHR 0x0A])"
  by (rule ext) (simp add: item_def fileText_def nl_def)

lemma section_text:
  "concat (section_parts sev suggs) =
     (if sev \<in> severity ` set suggs
      then heading sev (length (filter (\<lambda>s. severity s = sev) suggs))
           @ concat (map item (filter (\<lambda>s. severity s = sev) suggs)) @ nl
      else [])"
  by (auto simp: section_parts_def Let_def filter_empty_conv)

text \<open>
  C9. The description is the two introductory lines, then for each of the severities high,
  medium and low, in this order, a section exactly when some suggestion has that severity
  (a heading with the number of these suggestions, one entry for each of them in the order
  of the list, an empty line) and nothing otherwise, then the fixed note on the automatic
  fixes and the manual review.
\<close>

theorem sections_rendered_iff_present:
  "generatePRDescription n suggs =
     ''## '' @ [CHR 0xF0, CHR 0x9F, CHR 0x94, CHR 0xA7] @ '' Automated Code Improvements''
       @ [CHR 0x0A, CHR 0x0A]
     @ ''This PR contains automated code improvements based on analysis of PR #'' @ showNat n
       @ ''.'' @ [CHR 0x0A, CHR 0x0A]
     @ (if High \<in> severity ` set suggs
        then ''### '' @ [CHR 0xF0, CHR 0x9F, CHR 0x94, CHR 0xB4] @ '' High Priority Issues (''
               @ showNat (length (filter (\<lambda>s. severity s = High) suggs)) @ '')'' @ [CHR 0x0A]
             @ concat (map (\<lambda>s. ''- **''
                                 @ (case file_path s of None \<Rightarrow> ''undefined'' | Some f \<Rightarrow> f)
                                 @ ''**: '' @ message s @ [CHR 0x0A])
                         (filter (\<lambda>s. severity s = High) suggs))
             @ [CHR 0x0A]
        else [])
     @ (if Medium \<in> severity ` set suggs
        then ''### '' @ [CHR 0xF0, CHR 0x9F, CHR 0x9F, CHR 0xA1] @ '' Medium Priority Issues (''
               @ showNat (length (filter (\<lambda>s. severity s = Medium) suggs)) @ '')'' @ [CHR 0x0A]
             @ concat (map (\<lambda>s. ''- **''
                                 @ (case file_path s of None \<Rightarrow> ''undefined'' | Some f \<Rightarrow> f)
                                 @ ''**: '' @ message s @ [CHR 0x0A])
                         (filter (\<lambda>s. severity s = Medium) suggs))
             @ [CHR 0x0A]
        else [])
     @ (if Low \<in> severity ` set suggs
        then ''### '' @ [CHR 0xF0, CHR 0x9F, CHR 0x9F, CHR 0xA2] @ '' Low Priority Issues (''
               @ showNat (length (filter (\<lambda>s. severity s = Low) suggs)) @ '')'' @ [CHR 0x0A]
             @ concat (map (\<lambda>s. ''- **''
                                 @ (case file_path s of None \<Rightarrow> ''undefined'' | Some f \<Rightarrow> f)
                                 @ ''**: '' @ message s @ [CHR 0x0A])
                         (filter (\<lambda>s. severity s = Low) suggs))
             @ [CHR 0x0A]
        else [])
     @ ''### '' @ [CHR 0xF0, CHR 0x9F, CHR 0xA4, CHR 0x96] @ '' Automatic Fixes Applied''
       @ [CHR 0x0A]
     @ ''- ESLint automatic fixes'' @ [CHR 0x0A]
     @ ''- Prettier code formatting'' @ [CHR 0x0A, CHR 0x0A]
     @ ''### '' @ [CHR 0xF0, CHR 0x9F, CHR 0x93, CHR 0x8B] @ '' Manual Review Needed'' @ [CHR 0x0A]
     @ ''Please review the suggestions above and consider implementing the recommended changes.''
       @ [CHR 0x0A, CHR 0x0A]
     @ ''---'' @ [CHR 0x0A]
     @ ''*This PR was automatically generated by the code quality monitoring system.*''"
proof -
  have "generatePRDescription n suggs =
      ''## '' @ emojiWrench @ '' Automated Code Improvements'' @ nl @ nl
      @ ''This PR contains automated code improvements based on analysis of PR #''
      @ showNat n @ ''.'' @ nl @ nl
      @ concat (section_parts High suggs) @ concat (section_parts Medium suggs)
      @ concat (section_parts Low suggs) @ concat fixedNote"
    by (simp add: generatePRDescription_def descriptionParts_def)
  also have "concat fixedNote =
     ''### '' @ [CHR 0xF0, CHR 0x9F, CHR 0xA4, CHR 0x96] @ '' Automatic Fixes Applied''
       @ [CHR 0x0A]
     @ ''- ESLint automatic fixes'' @ [CHR 0x0A]
     @ ''- Prettier code formatting'' @ [CHR 0x0A, CHR 0x0A]
     @ ''### '' @ [CHR 0xF0, CHR 0x9F, CHR 0x93, CHR 0x8B] @ '' Manual Review Needed'' @ [CHR 0x0A]
     @ ''Please review the suggestions above and consider implementing the recommended changes.''
       @ [CHR 0x0A, CHR 0x0A]
     @ ''---'' @ [CHR 0x0A]
     @ ''*This PR was automatically generated by the code quality monitoring system.*''"
    by (simp add: fixedNote_def emoji_defs)
  finally show ?thesis
    by (simp add: section_text item_fun emoji_defs)
qed

theorem sections_rendered_witness:
  "High \<in> severity ` set exampleSuggestions
   \<and> Medium \<notin> severity ` set exampleSuggestions
   \<and> Low \<in> severity ` set exampleSuggestions
   \<and> generatePRDescription 12 exampleSuggestions =
       ''## '' @ [CHR 0xF0, CHR 0x9F, CHR 0x94, CHR 0xA7] @ '' Automated Code Improvements''
         @ [CHR 0x0A, CHR 0x0A]
       @ ''This PR contains automated code improvements based on analysis of PR #12.''
         @ [CHR 0x0A, CHR 0x0A]
       @ ''### '' @ [CHR 0xF0, CHR 0x9F, CHR 0x94, CHR 0xB4] @ '' High Priority Issues (1)''
         @ [CHR 0x0A]
       @ ''- **src/components/Board.tsx**: Component is 412 lines long. Consider breaking into smaller components.''
         @ [CHR 0x0A, CHR 0x0A]
       @ ''### '' @ [CHR 0xF0, CHR 0x9F, CHR 0x9F, CHR 0xA2] @ '' Low Priority Issues (2)''
         @ [CHR 0x0A]
       @ ''- **src/api.ts**: Found function parameters without explicit types.'' @ [CHR 0x0A]
       @ ''- **undefined**: Mixed quote styles found. Consider using single quotes consistently.''
         @ [CHR 0x0A, CHR 0x0A]
       @ ''### '' @ [CHR 0xF0, CHR 0x9F, CHR 0xA4, CHR 0x96] @ '' Automatic Fixes Applied''
         @ [CHR 0x0A]
       @ ''- ESLint automatic fixes'' @ [CHR 0x0A]
       @ ''- Prettier code formatting'' @ [CHR 0x0A, CHR 0x0A]
       @ ''### '' @ [CHR 0xF0, CHR 0x9F, CHR 0x93, CHR 0x8B] @ '' Manual Review Needed''
         @ [CHR 0x0A]
       @ ''Please review the suggestions above and consider implementing the recommended changes.''
         @ [CHR 0x0A, CHR 0x0A]
       @ ''---'' @ [CHR 0x0A]
       @ ''*This PR was automatically generated by the code quality monitoring system.*''
   \<and> includesStr (generatePRDescription 12 exampleSuggestions) ''High Priority Issues (1)''
   \<and> includesStr (generatePRDescription 12 exampleSuggestions) ''Low Priority Issues (2)''
   \<and> \<not> includesStr (generatePRDescription 12 exampleSuggestions) ''Medium Priority Issues''"
proof -
  have s: "High \<in> severity ` set exampleSuggestions" "Low \<in> severity ` set exampleSuggestions"
    "Medium \<notin> severity ` set exampleSuggestions"
    by (simp_all add: exampleSuggestions_def)
  have t: "generatePRDescription 12 exampleSuggestions =
       ''## '' @ [CHR 0xF0, CHR 0x9F, CHR 0x94, CHR 0xA7] @ '' Automated Code Improvements''
         @ [CHR 0x0A, CHR 0x0A]
       @ ''This PR contains automated code improvements based on analysis of PR #12.''
         @ [CHR 0x0A, CHR 0x0A]
       @ ''### '' @ [CHR 0xF0, CHR 0x9F, CHR 0x94, CHR 0xB4] @ '' High Priority Issues (1)''
         @ [CHR 0x0A]
       @ ''- **src/components/Board.tsx**: Component is 412 lines long. Consider breaking into smaller components.''
         @ [CHR 0x0A, CHR 0x0A]
       @ ''### '' @ [CHR 0xF0, CHR 0x9F, CHR 0x9F, CHR 0xA2] @ '' Low Priority Issues (2)''
         @ [CHR 0x0A]
       @ ''- **src/api.ts**: Found function parameters without explicit types.'' @ [CHR 0x0A]
       @ ''- **undefined**: Mixed quote styles found. Consider using single quotes consistently.''
         @ [CHR 0x0A, CHR 0x0A]
       @ ''### '' @ [CHR 0xF0, CHR 0x9F, CHR 0xA4, CHR 0x96] @ '' Automatic Fixes Applied''
         @ [CHR 0x0A]
       @ ''- ESLint automatic fixes'' @ [CHR 0x0A]
       @ ''- Prettier code formatting'' @ [CHR 0x0A, CHR 0x0A]
       @ ''### '' @ [CHR 0xF0, CHR 0x9F, CHR 0x93, CHR 0x8B] @ '' Manual Review Needed''
         @ [CHR 0x0A]
       @ ''Please review the suggestions above and consider implementing the recommended changes.''
         @ [CHR 0x0A, CHR 0x0A]
       @ ''---'' @ [CHR 0x0A]
       @ ''*This PR was automatically generated by the code quality monitoring system.*''"
    using sections_rendered_iff_present [of 12 exampleSuggestions] s
    by (simp add: exampleSuggestions_def showNat.simps digit_def)
  have i: "includesStr (generatePRDescription 12 exampleSuggestions) ''High Priority Issues (1)''"
    "includesStr (generatePRDescription 12 exampleSuggestions) ''Low Priority Issues (2)''"
    "\<not> includesStr (generatePRDescription 12 exampleSuggestions) ''Medium Priority Issues''"
    unfolding t by simp_all
  show ?thesis using s t i by blast
qed

end
